theory Spec2Isabelle
  imports Complex_Main "HOL-Library.Sublist" "HOL-Library.Log_Nat"
begin

section \<open>JavaScript values\<close>

text \<open>
  A JavaScript number is an IEEE 754 double: a finite value, one of the two infinities,
  or NaN. A finite double is kept as the rational it denotes; the sign of zero is not
  modelled. Every arithmetic operation gives the double nearest to its exact result
  (\<open>fl\<close>), so that the rounding error of the source's arithmetic is part of the model.
  A decimal literal of the source such as \<^verbatim>\<open>0.92\<close> is written as the decimal it spells,
  \<open>Num (92 / 100)\<close>: the code hands these values on and tests them, and does no arithmetic
  on them.
\<close>

datatype jsnum = Num rat | PosInf | NegInf | NaN

text \<open>The integer nearest to \<open>x\<close>, the even one of the two at a tie.\<close>

definition round_even :: "rat \<Rightarrow> int" where
  "round_even x =
     (let f = \<lfloor>x\<rfloor>; d = x - of_int f
      in if d < 1 / 2 then f else if 1 / 2 < d then f + 1 else if even f then f else f + 1)"

text \<open>The binary exponent of a positive rational: \<open>2\<^sup>e \<le> x < 2\<^sup>e\<^sup>+\<^sup>1\<close>.\<close>

definition ilog2 :: "rat \<Rightarrow> int" where
  "ilog2 x = (if 1 \<le> x then bitlen \<lfloor>x\<rfloor> - 1 else - bitlen (\<lceil>1 / x\<rceil> - 1))"

text \<open>
  Rounding to double, to nearest and ties to even. A double has 53 significant bits,
  so its last place is worth \<open>2\<^sup>e\<^sup>-\<^sup>5\<^sup>2\<close>; below the exponent \<open>-1022\<close> the spacing stays
  \<open>2\<^sup>-\<^sup>1\<^sup>0\<^sup>7\<^sup>4\<close> (subnormal numbers); a result that rounds to \<open>2\<^sup>1\<^sup>0\<^sup>2\<^sup>4\<close> or more is an
  infinity.
\<close>

definition fl :: "rat \<Rightarrow> jsnum" where
  "fl x =
     (if x = 0 then Num 0
      else
        (let a = \<bar>x\<bar>;
             e = max (ilog2 a) (- 1022);
             u = 2 powi (e - 52);
             r = of_int (round_even (a / u)) * u
         in if 2 ^ 1024 \<le> r then (if 0 < x then PosInf else NegInf)
            else Num (if 0 < x then r else - r)))"

text \<open>\<^verbatim>\<open>a / b\<close>\<close>

fun js_div :: "jsnum \<Rightarrow> jsnum \<Rightarrow> jsnum" where
  "js_div NaN _ = NaN"
| "js_div _ NaN = NaN"
| "js_div (Num x) (Num y) =
     (if y \<noteq> 0 then fl (x / y)
      else if 0 < x then PosInf else if x < 0 then NegInf else NaN)"
| "js_div (Num x) PosInf = Num 0"
| "js_div (Num x) NegInf = Num 0"
| "js_div PosInf (Num y) = (if y < 0 then NegInf else PosInf)"
| "js_div NegInf (Num y) = (if y < 0 then PosInf else NegInf)"
| "js_div PosInf PosInf = NaN"
| "js_div PosInf NegInf = NaN"
| "js_div NegInf PosInf = NaN"
| "js_div NegInf NegInf = NaN"

text \<open>\<^verbatim>\<open>a * b\<close>\<close>

fun js_mul :: "jsnum \<Rightarrow> jsnum \<Rightarrow> jsnum" where
  "js_mul NaN _ = NaN"
| "js_mul _ NaN = NaN"
| "js_mul (Num x) (Num y) = fl (x * y)"
| "js_mul (Num x) PosInf = (if x = 0 then NaN else if 0 < x then PosInf else NegInf)"
| "js_mul (Num x) NegInf = (if x = 0 then NaN else if 0 < x then NegInf else PosInf)"
| "js_mul PosInf (Num y) = (if y = 0 then NaN else if 0 < y then PosInf else NegInf)"
| "js_mul NegInf (Num y) = (if y = 0 then NaN else if 0 < y then NegInf else PosInf)"
| "js_mul PosInf PosInf = PosInf"
| "js_mul PosInf NegInf = NegInf"
| "js_mul NegInf PosInf = NegInf"
| "js_mul NegInf NegInf = PosInf"

text \<open>\<^verbatim>\<open>a - b\<close>\<close>

fun js_sub :: "jsnum \<Rightarrow> jsnum \<Rightarrow> jsnum" where
  "js_sub NaN _ = NaN"
| "js_sub _ NaN = NaN"
| "js_sub (Num x) (Num y) = fl (x - y)"
| "js_sub (Num x) PosInf = NegInf"
| "js_sub (Num x) NegInf = PosInf"
| "js_sub PosInf (Num y) = PosInf"
| "js_sub NegInf (Num y) = NegInf"
| "js_sub PosInf PosInf = NaN"
| "js_sub PosInf NegInf = PosInf"
| "js_sub NegInf PosInf = NegInf"
| "js_sub NegInf NegInf = NaN"

text \<open>
  \<^verbatim>\<open>Math.round\<close>: the integer nearest to the double, a tie going towards \<open>+\<infinity>\<close>. It is
  exact: the result is a double whenever the argument is.
\<close>

fun js_round :: "jsnum \<Rightarrow> jsnum" where
  "js_round (Num r) = Num (of_int \<lfloor>r + 1 / 2\<rfloor>)"
| "js_round PosInf = PosInf"
| "js_round NegInf = NegInf"
| "js_round NaN = NaN"

text \<open>\<^verbatim>\<open>Math.min\<close> of two numbers.\<close>

fun js_min :: "jsnum \<Rightarrow> jsnum \<Rightarrow> jsnum" where
  "js_min NaN _ = NaN"
| "js_min _ NaN = NaN"
| "js_min NegInf _ = NegInf"
| "js_min _ NegInf = NegInf"
| "js_min PosInf b = b"
| "js_min a PosInf = a"
| "js_min (Num x) (Num y) = Num (min x y)"

text \<open>
  Truthiness of an optional number (\<open>None\<close> is \<^verbatim>\<open>undefined\<close>): \<^verbatim>\<open>undefined\<close>, zero
  and NaN are falsy.
\<close>

fun truthy :: "jsnum option \<Rightarrow> bool" where
  "truthy None = False"
| "truthy (Some (Num r)) = (r \<noteq> 0)"
| "truthy (Some NaN) = False"
| "truthy (Some _) = True"

text \<open>\<^verbatim>\<open>a || d\<close> for an optional number \<open>a\<close> and a number \<open>d\<close>.\<close>

definition js_or :: "jsnum option \<Rightarrow> jsnum \<Rightarrow> jsnum" where
  "js_or a d = (if truthy a then the a else d)"

subsection \<open>Strings\<close>

text \<open>
  File names and media types are byte strings; \<^verbatim>\<open>toLowerCase\<close> maps \<open>A\<close>..\<open>Z\<close> to
  \<open>a\<close>..\<open>z\<close> and leaves every other byte alone.
\<close>

definition lower_char :: "char \<Rightarrow> char" where
  "lower_char c =
     (let n = (of_char c :: nat) in if 65 \<le> n \<and> n \<le> 90 then char_of (n + 32) else c)"

definition toLowerCase :: "string \<Rightarrow> string" where
  "toLowerCase s = map lower_char s"

definition endsWith :: "string \<Rightarrow> string \<Rightarrow> bool" where
  "endsWith s t = (length t \<le> length s \<and> drop (length s - length t) s = t)"

definition startsWith :: "string \<Rightarrow> string \<Rightarrow> bool" where
  "startsWith s t = (take (length t) s = t)"

text \<open>\<^verbatim>\<open>s.includes(t)\<close>\<close>

fun includes_str :: "string \<Rightarrow> string \<Rightarrow> bool" where
  "includes_str [] t = (t = [])"
| "includes_str (c # cs) t = (startsWith (c # cs) t \<or> includes_str cs t)"

text \<open>Decimal digits of a natural number.\<close>

fun digits :: "nat \<Rightarrow> string" where
  "digits n =
     (if n < 10 then [char_of (48 + n)] else digits (n div 10) @ [char_of (48 + n mod 10)])"

declare digits.simps [simp del]

text \<open>
  Number to string, as a template literal does it. An integer below \<open>10\<^sup>2\<^sup>1\<close> in
  magnitude prints its decimal digits; how the language prints any other finite number
  (a fraction, an exponent form) is the parameter \<open>fmt\<close>.
\<close>

definition numToString :: "(rat \<Rightarrow> string) \<Rightarrow> jsnum \<Rightarrow> string" where
  "numToString fmt x =
     (case x of
        NaN \<Rightarrow> ''NaN''
      | PosInf \<Rightarrow> ''Infinity''
      | NegInf \<Rightarrow> ''-Infinity''
      | Num r \<Rightarrow>
          (if r = of_int \<lfloor>r\<rfloor> \<and> \<bar>r\<bar> < 10 ^ 21
           then (if r < 0 then ''-'' else '''') @ digits (nat \<bar>\<lfloor>r\<rfloor>\<bar>)
           else fmt r))"

text \<open>
  \<^verbatim>\<open>s.replace(/\.[^.]+$/, r)\<close>: the first position where a dot is followed by at
  least one character, none of them a dot, up to the end of \<open>s\<close>; the string is
  unchanged when there is none. The replacements used here contain no \<^verbatim>\<open>$\<close>.
\<close>

fun replace_ext :: "string \<Rightarrow> string \<Rightarrow> string" where
  "replace_ext [] r = []"
| "replace_ext (c # cs) r =
     (if c = CHR ''.'' \<and> cs \<noteq> [] \<and> CHR ''.'' \<notin> set cs then r
      else c # replace_ext cs r)"

text \<open>\<^verbatim>\<open>s.replace(/\.[^/.]+$/, r)\<close>: as above, the characters after the dot being
  neither a dot nor a slash.\<close>

fun replace_ext_noslash :: "string \<Rightarrow> string \<Rightarrow> string" where
  "replace_ext_noslash [] r = []"
| "replace_ext_noslash (c # cs) r =
     (if c = CHR ''.'' \<and> cs \<noteq> [] \<and> CHR ''.'' \<notin> set cs \<and> CHR ''/'' \<notin> set cs then r
      else c # replace_ext_noslash cs r)"

text \<open>
  \<^verbatim>\<open>s.replace(/\.svg$/i, r)\<close> and its siblings for \<^verbatim>\<open>pdf\<close> and \<^verbatim>\<open>heic\<close>: \<open>suf\<close>
  is the lower-case suffix with its dot, matched without regard to case at the end of
  \<open>s\<close>.
\<close>

definition replace_suffix_ci :: "string \<Rightarrow> string \<Rightarrow> string \<Rightarrow> string" where
  "replace_suffix_ci suf s r =
     (if endsWith (toLowerCase s) suf then take (length s - length suf) s @ r else s)"

section \<open>Data model\<close>

text \<open>The output formats of the option types.\<close>

datatype format = PNG | JPG | JPEG | WEBP

fun format_str :: "format \<Rightarrow> string" where
  "format_str PNG = ''png''"
| "format_str JPG = ''jpg''"
| "format_str JPEG = ''jpeg''"
| "format_str WEBP = ''webp''"

text \<open>A \<^verbatim>\<open>File\<close>: name, declared media type and byte size.\<close>

record jsfile =
  file_name :: string
  file_type :: string
  file_size :: nat

record blob =
  blob_size :: nat
  blob_type :: string

text \<open>A decoded \<^verbatim>\<open>Image\<close> element, with its natural dimensions.\<close>

record image =
  img_width :: nat
  img_height :: nat

text \<open>
  A canvas is the two dimensions first assigned to it and the operations performed on
  it, in the order of the program. \<open>ResetSize\<close> is a later assignment to the width and
  height, which clears the canvas. \<open>PutImageData c\<close> puts the pixels read from the
  canvas \<open>c\<close>, of the same size, at the origin.
\<close>

datatype canvas = Canvas (cv_width: jsnum) (cv_height: jsnum) (cv_ops: "draw_op list")
and draw_op =
    Smoothing
  | FillRect string jsnum jsnum jsnum jsnum
  | DrawImage image jsnum jsnum jsnum jsnum
  | RenderPage nat jsnum jsnum
  | PutImageData canvas
  | ResetSize jsnum jsnum
  | DrawCanvas canvas

text \<open>
  What is thrown, or what a promise is rejected with: an \<^verbatim>\<open>Error\<close> with its message,
  or a value that is no \<^verbatim>\<open>Error\<close> (an event, for one).
\<close>

datatype error = Error string | NonError

text \<open>\<^verbatim>\<open>error instanceof Error ? error.message : 'Unknown error'\<close>\<close>

fun error_message :: "error \<Rightarrow> string" where
  "error_message (Error m) = m"
| "error_message NonError = ''Unknown error''"

text \<open>The settled state of the promise an operation returns; \<open>Pending\<close> is a promise
  that never settles.\<close>

datatype 'a promise = Resolved 'a | Rejected error | Pending

fun resolved :: "'a promise \<Rightarrow> bool" where
  "resolved (Resolved x) = True"
| "resolved _ = False"

fun settled_value :: "'a promise \<Rightarrow> 'a option" where
  "settled_value (Resolved x) = Some x"
| "settled_value _ = None"

text \<open>
  One call of an encode primitive, with the quality passed to it: \<^verbatim>\<open>canvas.toBlob\<close>
  (the canvas, the media type, the quality), \<^verbatim>\<open>heic2any\<close> (the file, the target type,
  the quality) and \<^verbatim>\<open>imageCompression\<close> (the file, \<^verbatim>\<open>maxSizeMB\<close>,
  \<^verbatim>\<open>maxWidthOrHeight\<close>, \<^verbatim>\<open>useWebWorker\<close>, \<^verbatim>\<open>initialQuality\<close>, \<^verbatim>\<open>preserveExif\<close>).
\<close>

datatype enc_call =
    ToBlob canvas string jsnum
  | Heic2any jsfile string jsnum
  | ImageCompression jsfile jsnum "jsnum option" bool jsnum bool

fun call_quality :: "enc_call \<Rightarrow> jsnum" where
  "call_quality (ToBlob c m q) = q"
| "call_quality (Heic2any f t q) = q"
| "call_quality (ImageCompression f s d w q e) = q"

text \<open>The canvas a call encodes, if it encodes one.\<close>

fun call_canvas :: "enc_call \<Rightarrow> canvas option" where
  "call_canvas (ToBlob c m q) = Some c"
| "call_canvas _ = None"

text \<open>
  The browser and the libraries the operations call. Each field is what the
  collaborator answers:
  \<^item> \<open>loadImage\<close>: the image decoded from the object URL of a file, \<open>None\<close> when
    \<^verbatim>\<open>onerror\<close> fires; \<open>loadBlobImage\<close>: the same for a blob;
  \<^item> \<open>getContext\<close>: whether \<^verbatim>\<open>getContext('2d')\<close> of the \<open>k\<close>-th canvas created by
    the operation, counted from 0, gives a context;
  \<^item> \<open>toBlob\<close>: the blob handed to the callback of \<^verbatim>\<open>canvas.toBlob\<close>, \<open>None\<close> for
    \<^verbatim>\<open>null\<close>;
  \<^item> \<open>createObjectURL\<close>: the URL issued for a blob;
  \<^item> \<open>numFmt\<close>: the language's printing of a number that is no small integer;
  \<^item> \<open>canvasDim\<close>: the value read back from a canvas dimension after an assignment;
  \<^item> \<open>getImageData\<close>: what reading the pixels of a canvas throws, if anything;
  \<^item> \<open>readAsText\<close>: the text of a file as UTF-16 code units, \<open>None\<close> when the reader
    fails; \<open>loadSvg\<close>: the image decoded from SVG text, \<open>None\<close> when \<^verbatim>\<open>onerror\<close>
    fires;
  \<^item> \<open>pdfFirstPage\<close>: reading the file, loading the document and getting page 1 (a
    handle), or what was thrown; \<open>getViewport\<close>: the width and height of a page at a
    scale; \<open>pdfRender\<close>: what rendering a page throws, if anything;
  \<^item> \<open>heic2any\<close>: a blob, an array of blobs, or what was thrown;
  \<^item> \<open>imageCompression\<close>: the compressed file, or what was thrown;
  \<^item> \<open>removeBackground\<close>: the segmented blob, or what was thrown.
  Revoking an object URL has no result and is left out.
\<close>

datatype heic_result = OneBlob blob | BlobArray "blob list"

record env =
  loadImage :: "jsfile \<Rightarrow> image option"
  loadBlobImage :: "blob \<Rightarrow> image option"
  getContext :: "nat \<Rightarrow> bool"
  toBlob :: "canvas \<Rightarrow> string \<Rightarrow> jsnum \<Rightarrow> blob option"
  createObjectURL :: "blob \<Rightarrow> string"
  numFmt :: "rat \<Rightarrow> string"
  canvasDim :: "jsnum \<Rightarrow> jsnum"
  getImageData :: "canvas \<Rightarrow> error option"
  readAsText :: "jsfile \<Rightarrow> nat list option"
  loadSvg :: "nat list \<Rightarrow> image option"
  pdfFirstPage :: "jsfile \<Rightarrow> error + nat"
  getViewport :: "nat \<Rightarrow> jsnum \<Rightarrow> jsnum \<times> jsnum"
  pdfRender :: "nat \<Rightarrow> jsnum \<times> jsnum \<Rightarrow> error option"
  heic2any :: "jsfile \<Rightarrow> string \<Rightarrow> jsnum \<Rightarrow> error + heic_result"
  imageCompression ::
    "jsfile \<Rightarrow> jsnum \<Rightarrow> jsnum option \<Rightarrow> bool \<Rightarrow> jsnum \<Rightarrow> bool \<Rightarrow> error + blob"
  removeBackground :: "jsfile \<Rightarrow> error + blob"

section \<open>Resize (\<^verbatim>\<open>src/utils/imageResizer.ts\<close>)\<close>

text \<open>
  The interfaces of the source share field names (\<^verbatim>\<open>width\<close>, \<^verbatim>\<open>quality\<close>,
  \<^verbatim>\<open>filename\<close>, ...); a record field being a constant of its own, each field carries
  the initials of its interface. An optional field is an \<open>option\<close>, \<open>None\<close> for
  \<^verbatim>\<open>undefined\<close>.
\<close>

record ResizeOptions =
  ro_width :: "jsnum option"
  ro_height :: "jsnum option"
  ro_maintainAspectRatio :: "bool option"
  ro_quality :: "jsnum option"
  ro_format :: "format option"

record ResizeResult =
  rr_blob :: blob
  rr_url :: string
  rr_filename :: string
  rr_originalSize :: nat
  rr_newSize :: nat
  rr_originalWidth :: jsnum
  rr_originalHeight :: jsnum
  rr_newWidth :: jsnum
  rr_newHeight :: jsnum

text \<open>\<^verbatim>\<open>getFormatFromFile\<close>\<close>

definition getFormatFromFile :: "jsfile \<Rightarrow> format" where
  "getFormatFromFile file =
     (let type = toLowerCase (file_type file) in
      if includes_str type ''png'' then PNG
      else if includes_str type ''webp'' then WEBP
      else JPG)"

text \<open>
  The target dimensions of \<^verbatim>\<open>resizeImage\<close> (lines 38 to 62), from the natural
  dimensions of the image and the options.
\<close>

definition resizeTarget :: "nat \<Rightarrow> nat \<Rightarrow> ResizeOptions \<Rightarrow> jsnum \<times> jsnum" where
  "resizeTarget w h options =
     (let originalWidth = Num (of_nat w);
          originalHeight = Num (of_nat h);
          targetWidth = js_or (ro_width options) originalWidth;
          targetHeight = js_or (ro_height options) originalHeight
      in if ro_maintainAspectRatio options \<noteq> Some False then
           (let aspectRatio = js_div originalWidth originalHeight in
            if truthy (ro_width options) \<and> \<not> truthy (ro_height options) then
              (targetWidth, js_round (js_div (the (ro_width options)) aspectRatio))
            else if truthy (ro_height options) \<and> \<not> truthy (ro_width options) then
              (js_round (js_mul (the (ro_height options)) aspectRatio), targetHeight)
            else if truthy (ro_width options) \<and> truthy (ro_height options) then
              (let widthRatio = js_div (the (ro_width options)) originalWidth;
                   heightRatio = js_div (the (ro_height options)) originalHeight;
                   ratio = js_min widthRatio heightRatio
               in (js_round (js_mul originalWidth ratio),
                   js_round (js_mul originalHeight ratio)))
            else (targetWidth, targetHeight))
         else (targetWidth, targetHeight))"

text \<open>
  \<^verbatim>\<open>resizeImage\<close>: the calls of the encode primitive it makes, and how its promise
  settles.
\<close>

definition resizeImage ::
  "env \<Rightarrow> jsfile \<Rightarrow> ResizeOptions \<Rightarrow> enc_call list \<times> ResizeResult promise" where
  "resizeImage e file options =
     (case loadImage e file of
        None \<Rightarrow> ([], Rejected (Error ''Failed to load image''))
      | Some img \<Rightarrow>
          (let (targetWidth, targetHeight) =
                 resizeTarget (img_width img) (img_height img) options
           in if \<not> getContext e 0 then
                ([], Rejected (Error ''Failed to get canvas context''))
              else
                (let outputFormat =
                       (case ro_format options of
                          Some f \<Rightarrow> f
                        | None \<Rightarrow> getFormatFromFile file);
                     canvas = Canvas targetWidth targetHeight
                       ([Smoothing]
                        @ (if outputFormat = JPG \<or> outputFormat = JPEG
                           then [FillRect ''#FFFFFF'' (Num 0) (Num 0) targetWidth targetHeight]
                           else [])
                        @ [DrawImage img (Num 0) (Num 0) targetWidth targetHeight]);
                     mime = ''image/'' @ format_str outputFormat;
                     q = js_or (ro_quality options) (Num (92 / 100))
                 in case toBlob e canvas mime q of
                      None \<Rightarrow>
                        ([ToBlob canvas mime q], Rejected (Error ''Failed to create blob''))
                    | Some b \<Rightarrow>
                        (let ext = (if outputFormat = JPEG then ''jpg''
                                    else format_str outputFormat);
                             newFilename = replace_ext (file_name file)
                               (''_'' @ numToString (numFmt e) targetWidth @ ''x''
                                @ numToString (numFmt e) targetHeight @ ''.'' @ ext)
                         in ([ToBlob canvas mime q],
                             Resolved \<lparr>rr_blob = b,
                               rr_url = createObjectURL e b,
                               rr_filename = newFilename,
                               rr_originalSize = file_size file,
                               rr_newSize = blob_size b,
                               rr_originalWidth = Num (of_nat (img_width img)),
                               rr_originalHeight = Num (of_nat (img_height img)),
                               rr_newWidth = targetWidth,
                               rr_newHeight = targetHeight\<rparr>)))))"

section \<open>Convert (\<^verbatim>\<open>src/utils/imageConverter.ts\<close>)\<close>

record ConversionOptions =
  co_format :: format
  co_quality :: "jsnum option"
  co_width :: "jsnum option"
  co_height :: "jsnum option"
  co_maintainAspectRatio :: "bool option"
  co_scale :: "jsnum option"

record ConversionResult =
  cr_blob :: blob
  cr_url :: string
  cr_filename :: string
  cr_originalSize :: nat
  cr_newSize :: nat
  cr_format :: string

text \<open>\<^verbatim>\<open>btoa\<close> throws on a code unit above 255.\<close>

definition btoa_ok :: "nat list \<Rightarrow> bool" where
  "btoa_ok cs = list_all (\<lambda>c. c < 256) cs"

text \<open>
  \<^verbatim>\<open>convertSvgToRaster\<close>. When \<^verbatim>\<open>btoa\<close> throws inside the reader's callback nothing
  settles the promise.
\<close>

definition convertSvgToRaster ::
  "env \<Rightarrow> jsfile \<Rightarrow> ConversionOptions \<Rightarrow> enc_call list \<times> ConversionResult promise" where
  "convertSvgToRaster e file options =
     (case readAsText e file of
        None \<Rightarrow> ([], Rejected (Error ''Failed to read file''))
      | Some svgContent \<Rightarrow>
          if \<not> btoa_ok svgContent then ([], Pending)
          else
            (case loadSvg e svgContent of
               None \<Rightarrow> ([], Rejected (Error ''Failed to load SVG''))
             | Some img \<Rightarrow>
                 (let scale = js_or (co_scale options) (Num 2);
                      width = js_or (co_width options)
                                (js_mul (Num (of_nat (img_width img))) scale);
                      height = js_or (co_height options)
                                 (js_mul (Num (of_nat (img_height img))) scale)
                  in if \<not> getContext e 0 then
                       ([], Rejected (Error ''Failed to get canvas context''))
                     else
                       (let canvas = Canvas width height
                              ((if co_format options = JPG \<or> co_format options = JPEG
                                then [FillRect ''#FFFFFF'' (Num 0) (Num 0) width height]
                                else [])
                               @ [DrawImage img (Num 0) (Num 0) width height]);
                            mime = ''image/'' @ format_str (co_format options);
                            q = js_or (co_quality options) (Num (92 / 100))
                        in case toBlob e canvas mime q of
                             None \<Rightarrow>
                               ([ToBlob canvas mime q],
                                Rejected (Error ''Failed to create blob''))
                           | Some b \<Rightarrow>
                               ([ToBlob canvas mime q],
                                Resolved \<lparr>cr_blob = b,
                                  cr_url = createObjectURL e b,
                                  cr_filename = replace_suffix_ci ''.svg'' (file_name file)
                                    (''.'' @ format_str (co_format options)),
                                  cr_originalSize = file_size file,
                                  cr_newSize = blob_size b,
                                  cr_format = format_str (co_format options)\<rparr>)))))"

text \<open>The canvas dimensions of \<^verbatim>\<open>convertRasterFormat\<close> (lines 115 to 126).\<close>

definition convertTarget :: "nat \<Rightarrow> nat \<Rightarrow> ConversionOptions \<Rightarrow> jsnum \<times> jsnum" where
  "convertTarget w h options =
     (let width = js_or (co_width options) (Num (of_nat w));
          height = js_or (co_height options) (Num (of_nat h))
      in if co_maintainAspectRatio options = Some True
            \<and> (truthy (co_width options) \<or> truthy (co_height options)) then
           (let aspectRatio = js_div (Num (of_nat w)) (Num (of_nat h)) in
            if truthy (co_width options) \<and> \<not> truthy (co_height options) then
              (width, js_round (js_div (the (co_width options)) aspectRatio))
            else if truthy (co_height options) \<and> \<not> truthy (co_width options) then
              (js_round (js_mul (the (co_height options)) aspectRatio), height)
            else (width, height))
         else (width, height))"

text \<open>\<^verbatim>\<open>convertRasterFormat\<close>\<close>

definition convertRasterFormat ::
  "env \<Rightarrow> jsfile \<Rightarrow> ConversionOptions \<Rightarrow> enc_call list \<times> ConversionResult promise" where
  "convertRasterFormat e file options =
     (case loadImage e file of
        None \<Rightarrow> ([], Rejected (Error ''Failed to load image''))
      | Some img \<Rightarrow>
          (let (width, height) = convertTarget (img_width img) (img_height img) options
           in if \<not> getContext e 0 then
                ([], Rejected (Error ''Failed to get canvas context''))
              else
                (let canvas = Canvas width height
                       ((if co_format options = JPG \<or> co_format options = JPEG
                         then [FillRect ''#FFFFFF'' (Num 0) (Num 0) width height]
                         else [])
                        @ [DrawImage img (Num 0) (Num 0) width height]);
                     mime = ''image/'' @ format_str (co_format options);
                     q = js_or (co_quality options) (Num (92 / 100))
                 in case toBlob e canvas mime q of
                      None \<Rightarrow>
                        ([ToBlob canvas mime q], Rejected (Error ''Failed to create blob''))
                    | Some b \<Rightarrow>
                        (let ext = (if co_format options = JPEG then ''jpg''
                                    else format_str (co_format options))
                         in ([ToBlob canvas mime q],
                             Resolved \<lparr>cr_blob = b,
                               cr_url = createObjectURL e b,
                               cr_filename = replace_ext (file_name file) (''.'' @ ext),
                               cr_originalSize = file_size file,
                               cr_newSize = blob_size b,
                               cr_format = format_str (co_format options)\<rparr>)))))"

text \<open>
  \<^verbatim>\<open>convertPdfToRaster\<close>. The page is rendered on the canvas first. For \<^verbatim>\<open>jpg\<close> and
  \<^verbatim>\<open>jpeg\<close> the pixels are then read, a second canvas is filled white, the pixels are
  put on it, and it is drawn back on the first canvas, whose size has been assigned
  again. What the \<^verbatim>\<open>try\<close> block throws is wrapped; the promise it returns is not
  awaited there, so its rejection is not.
\<close>

definition convertPdfToRaster ::
  "env \<Rightarrow> jsfile \<Rightarrow> ConversionOptions \<Rightarrow> enc_call list \<times> ConversionResult promise" where
  "convertPdfToRaster e file options =
     (case pdfFirstPage e file of
        Inl err \<Rightarrow>
          ([], Rejected (Error (''Failed to convert PDF: '' @ error_message err)))
      | Inr page \<Rightarrow>
          (let scale = js_or (co_scale options) (Num 2);
               (vw, vh) = getViewport e page scale
           in if \<not> getContext e 0 then
                ([], Rejected (Error (''Failed to convert PDF: ''
                                       @ ''Failed to get canvas context'')))
              else
                (case pdfRender e page (vw, vh) of
                   Some err \<Rightarrow>
                     ([], Rejected (Error (''Failed to convert PDF: '' @ error_message err)))
                 | None \<Rightarrow>
                     (let rendered = Canvas vw vh [RenderPage page vw vh];
                          mime = ''image/'' @ format_str (co_format options);
                          q = js_or (co_quality options) (Num (92 / 100));
                          finish = (\<lambda>canvas.
                            case toBlob e canvas mime q of
                              None \<Rightarrow>
                                ([ToBlob canvas mime q],
                                 Rejected (Error ''Failed to create blob from PDF''))
                            | Some b \<Rightarrow>
                                ([ToBlob canvas mime q],
                                 Resolved \<lparr>cr_blob = b,
                                   cr_url = createObjectURL e b,
                                   cr_filename = replace_suffix_ci ''.pdf'' (file_name file)
                                     (''.'' @ format_str (co_format options)),
                                   cr_originalSize = file_size file,
                                   cr_newSize = blob_size b,
                                   cr_format = format_str (co_format options)\<rparr>))
                      in if co_format options = JPG \<or> co_format options = JPEG then
                           (case getImageData e rendered of
                              Some err \<Rightarrow> ([], Rejected err)
                            | None \<Rightarrow>
                                (let cw = canvasDim e vw;
                                     ch = canvasDim e vh
                                 in if getContext e 1 then
                                      (let tempCanvas = Canvas cw ch
                                             [FillRect ''#FFFFFF'' (Num 0) (Num 0) cw ch,
                                              PutImageData rendered];
                                           tw = canvasDim e cw;
                                           th = canvasDim e ch
                                       in finish (Canvas vw vh
                                            [RenderPage page vw vh, ResetSize tw th,
                                             DrawCanvas tempCanvas]))
                                    else finish rendered))
                         else finish rendered))))"

text \<open>\<^verbatim>\<open>convertHeicToRaster\<close>\<close>

definition convertHeicToRaster ::
  "env \<Rightarrow> jsfile \<Rightarrow> ConversionOptions \<Rightarrow> enc_call list \<times> ConversionResult promise" where
  "convertHeicToRaster e file options =
     (let toType = ''image/'' @ format_str (co_format options);
          q = js_or (co_quality options) (Num (92 / 100))
      in case heic2any e file toType q of
           Inl err \<Rightarrow>
             ([Heic2any file toType q],
              Rejected (Error (''Failed to convert HEIC: '' @ error_message err)))
         | Inr convertedBlob \<Rightarrow>
             (case (case convertedBlob of
                      OneBlob b \<Rightarrow> Some b
                    | BlobArray [] \<Rightarrow> None
                    | BlobArray (b # bs) \<Rightarrow> Some b) of
                None \<Rightarrow>
                  ([Heic2any file toType q],
                   Rejected (Error (''Failed to convert HEIC: ''
                                     @ ''Failed to convert HEIC file'')))
              | Some b \<Rightarrow>
                  ([Heic2any file toType q],
                   Resolved \<lparr>cr_blob = b,
                     cr_url = createObjectURL e b,
                     cr_filename = replace_suffix_ci ''.heic'' (file_name file)
                       (''.'' @ format_str (co_format options)),
                     cr_originalSize = file_size file,
                     cr_newSize = blob_size b,
                     cr_format = format_str (co_format options)\<rparr>)))"

text \<open>\<^verbatim>\<open>convertImage\<close>\<close>

definition convertImage ::
  "env \<Rightarrow> jsfile \<Rightarrow> ConversionOptions \<Rightarrow> enc_call list \<times> ConversionResult promise" where
  "convertImage e file options =
     (let fileType = toLowerCase (file_type file);
          fileName = toLowerCase (file_name file)
      in if endsWith fileName ''.pdf'' \<or> fileType = ''application/pdf'' then
           convertPdfToRaster e file options
         else if endsWith fileName ''.heic'' \<or> endsWith fileName ''.heif''
                 \<or> fileType = ''image/heic'' \<or> fileType = ''image/heif'' then
           convertHeicToRaster e file options
         else if fileType = ''image/svg+xml'' \<or> endsWith fileName ''.svg'' then
           convertSvgToRaster e file options
         else if startsWith fileType ''image/'' then
           convertRasterFormat e file options
         else
           ([], Rejected (Error (''Unsupported file type: ''
                                  @ (if fileType = [] then ''unknown'' else fileType)))))"

section \<open>Compress (\<^verbatim>\<open>compressImage\<close> and the level table of \<^verbatim>\<open>ImageConverter.vue\<close>)\<close>

record CompressionOptions =
  cmo_maxSizeMB :: "jsnum option"
  cmo_maxWidthOrHeight :: "jsnum option"
  cmo_useWebWorker :: "bool option"
  cmo_quality :: "jsnum option"
  cmo_preserveExif :: "bool option"

record CompressionResult =
  cmr_blob :: blob
  cmr_url :: string
  cmr_filename :: string
  cmr_originalSize :: nat
  cmr_compressedSize :: nat
  cmr_compressionRatio :: jsnum

definition compressImage ::
  "env \<Rightarrow> jsfile \<Rightarrow> CompressionOptions \<Rightarrow> enc_call list \<times> CompressionResult promise" where
  "compressImage e file options =
     (let maxSizeMB = js_or (cmo_maxSizeMB options) (Num 1);
          maxWidthOrHeight = cmo_maxWidthOrHeight options;
          useWebWorker = (cmo_useWebWorker options \<noteq> Some False);
          initialQuality = js_or (cmo_quality options) (Num (8 / 10));
          preserveExif = (cmo_preserveExif options \<noteq> Some False);
          call = ImageCompression file maxSizeMB maxWidthOrHeight useWebWorker
                   initialQuality preserveExif
      in case imageCompression e file maxSizeMB maxWidthOrHeight useWebWorker
                initialQuality preserveExif of
           Inl err \<Rightarrow>
             ([call], Rejected (Error (''Failed to compress image: '' @ error_message err)))
         | Inr compressedFile \<Rightarrow>
             ([call],
              Resolved \<lparr>cmr_blob = compressedFile,
                cmr_url = createObjectURL e compressedFile,
                cmr_filename = file_name file,
                cmr_originalSize = file_size file,
                cmr_compressedSize = blob_size compressedFile,
                cmr_compressionRatio =
                  js_round (js_mul
                    (js_sub (Num 1)
                       (js_div (Num (of_nat (blob_size compressedFile)))
                               (Num (of_nat (file_size file)))))
                    (Num 100))\<rparr>))"

text \<open>
  \<^verbatim>\<open>getCompressionSettings\<close>: the pair \<^verbatim>\<open>(maxSizeMB, quality)\<close> of a level. An index
  that is no integer from 0 to 4 reads \<^verbatim>\<open>undefined\<close>, and the default is taken.
\<close>

definition settings :: "(rat \<times> rat) list" where
  "settings = [(5, 95 / 100), (3, 85 / 100), (2, 75 / 100), (1, 65 / 100), (1 / 2, 50 / 100)]"

definition getCompressionSettings :: "jsnum \<Rightarrow> rat \<times> rat" where
  "getCompressionSettings level =
     (case js_sub level (Num 1) of
        Num i \<Rightarrow>
          (if i = of_int \<lfloor>i\<rfloor> \<and> 0 \<le> i \<and> i < of_nat (length settings)
           then settings ! nat \<lfloor>i\<rfloor>
           else (2, 75 / 100))
      | _ \<Rightarrow> (2, 75 / 100))"

section \<open>Remove background (\<^verbatim>\<open>removeBgFromImage\<close>)\<close>

record BackgroundRemovalOptions =
  bo_format :: "format option"
  bo_quality :: "jsnum option"

record BackgroundRemovalResult =
  br_blob :: blob
  br_url :: string
  br_filename :: string
  br_originalSize :: nat
  br_newSize :: nat

text \<open>
  The defaults of the destructuring apply to \<^verbatim>\<open>undefined\<close> only. Everything thrown or
  rejected inside the \<^verbatim>\<open>try\<close> block is wrapped; the error event of the image is no
  \<^verbatim>\<open>Error\<close>. The image is drawn at its natural size.
\<close>

definition removeBgFromImage ::
  "env \<Rightarrow> jsfile \<Rightarrow> BackgroundRemovalOptions
     \<Rightarrow> enc_call list \<times> BackgroundRemovalResult promise" where
  "removeBgFromImage e file options =
     (let format = (case bo_format options of None \<Rightarrow> PNG | Some f \<Rightarrow> f);
          quality = (case bo_quality options of None \<Rightarrow> Num (95 / 100) | Some q \<Rightarrow> q);
          wrap = (\<lambda>err. Rejected (Error (''Failed to remove background: ''
                                          @ error_message err)));
          result = (\<lambda>calls resultBlob.
            (calls,
             Resolved \<lparr>br_blob = resultBlob,
               br_url = createObjectURL e resultBlob,
               br_filename = replace_ext_noslash (file_name file) []
                             @ ''_no-bg.'' @ format_str format,
               br_originalSize = file_size file,
               br_newSize = blob_size resultBlob\<rparr>))
      in case removeBackground e file of
           Inl err \<Rightarrow> ([], wrap err)
         | Inr b \<Rightarrow>
             if format \<noteq> PNG \<or> blob_type b \<noteq> ''image/png'' then
               (case loadBlobImage e b of
                  None \<Rightarrow> ([], wrap NonError)
                | Some img \<Rightarrow>
                    if \<not> getContext e 0 then
                      ([], wrap (Error ''Failed to get canvas context''))
                    else
                      (let w = Num (of_nat (img_width img));
                           h = Num (of_nat (img_height img));
                           canvas = Canvas w h [DrawImage img (Num 0) (Num 0) w h];
                           mimeType = ''image/'' @ format_str format
                       in case toBlob e canvas mimeType quality of
                            None \<Rightarrow>
                              ([ToBlob canvas mimeType quality],
                               wrap (Error ''Failed to create blob''))
                          | Some rb \<Rightarrow> result [ToBlob canvas mimeType quality] rb))
             else result [] b)"

section \<open>Notions of the specification\<close>

text \<open>
  The format detector as the specification words it (section 4.1): an ordered
  classification, the first rule that matches winning. A file name or media type
  matches without regard to case.
\<close>

datatype FormatKind = Vector | Raster | Heic | Pdf | Unsupported

definition detect :: "jsfile \<Rightarrow> FormatKind" where
  "detect file =
     (let n = toLowerCase (file_name file); t = toLowerCase (file_type file) in
      if suffix ''.pdf'' n \<or> t = ''application/pdf'' then Pdf
      else if suffix ''.heic'' n \<or> suffix ''.heif'' n
              \<or> t = ''image/heic'' \<or> t = ''image/heif'' then Heic
      else if t = ''image/svg+xml'' \<or> suffix ''.svg'' n then Vector
      else if prefix ''image/'' t then Raster
      else Unsupported)"

text \<open>A quality inside \<open>[0, 1]\<close>.\<close>

fun quality_in_range :: "jsnum \<Rightarrow> bool" where
  "quality_in_range (Num r) = (0 \<le> r \<and> r \<le> 1)"
| "quality_in_range _ = False"

text \<open>
  What ends up on a canvas, as layers from the bottom up; the empty list is the
  transparent canvas. A fill of the whole canvas with opaque white leaves white alone.
  Any other fill, an image and a rendered page are composited over what is there, and
  so is another canvas drawn onto this one. Putting pixel data replaces what is there:
  it does not composite. Assigning the size clears the canvas.
\<close>

datatype layer = White | Paint string | Img image | Page nat

fun surface :: "canvas \<Rightarrow> layer list"
  and draw :: "draw_op \<Rightarrow> jsnum \<times> jsnum \<times> layer list \<Rightarrow> jsnum \<times> jsnum \<times> layer list" where
  "surface (Canvas w h ops) = snd (snd (fold draw ops (w, h, [])))"
| "draw Smoothing s = s"
| "draw (FillRect col x y fw fh) (w, h, ls) =
     (w, h,
      if col = ''#FFFFFF'' \<and> x = Num 0 \<and> y = Num 0 \<and> fw = w \<and> fh = h then [White]
      else ls @ [Paint col])"
| "draw (DrawImage img x y dw dh) (w, h, ls) = (w, h, ls @ [Img img])"
| "draw (RenderPage p vw vh) (w, h, ls) = (w, h, ls @ [Page p])"
| "draw (PutImageData c) (w, h, ls) = (w, h, surface c)"
| "draw (ResetSize nw nh) (w, h, ls) = (nw, nh, [])"
| "draw (DrawCanvas c) (w, h, ls) = (w, h, ls @ surface c)"

fun is_source :: "layer \<Rightarrow> bool" where
  "is_source (Img img) = True"
| "is_source (Page p) = True"
| "is_source _ = False"

text \<open>
  The alpha rule of section 4.3 on the canvas handed to the encoder. For JPEG: the
  canvas is opaque white at the bottom, with the source over it. For PNG and WebP: the
  canvas holds the source alone, over transparency.
\<close>

definition alpha_rule :: "format \<Rightarrow> canvas \<Rightarrow> bool" where
  "alpha_rule fmt c =
     (if fmt = JPG \<or> fmt = JPEG
      then (case surface c of
              White # rest \<Rightarrow> rest \<noteq> [] \<and> list_all is_source rest
            | _ \<Rightarrow> False)
      else surface c \<noteq> [] \<and> list_all is_source (surface c))"

section \<open>Concrete inputs\<close>

text \<open>
  An environment in which every collaborator succeeds: each image decodes to \<open>img\<close>,
  every encoder returns a blob of 1000 bytes, a PDF page measures 612 by 792 at
  scale 1.
\<close>

definition demo_env :: "image \<Rightarrow> env" where
  "demo_env img =
     \<lparr>loadImage = (\<lambda>f. Some img),
      loadBlobImage = (\<lambda>b. Some img),
      getContext = (\<lambda>k. True),
      toBlob = (\<lambda>c m q. Some \<lparr>blob_size = 1000, blob_type = m\<rparr>),
      createObjectURL = (\<lambda>b. ''blob:demo''),
      numFmt = (\<lambda>r. ''?''),
      canvasDim = (\<lambda>x. x),
      getImageData = (\<lambda>c. None),
      readAsText = (\<lambda>f. Some []),
      loadSvg = (\<lambda>t. Some img),
      pdfFirstPage = (\<lambda>f. Inr 1),
      getViewport = (\<lambda>p s. (js_mul (Num 612) s, js_mul (Num 792) s)),
      pdfRender = (\<lambda>p v. None),
      heic2any = (\<lambda>f t q. Inr (OneBlob \<lparr>blob_size = 1000, blob_type = t\<rparr>)),
      imageCompression =
        (\<lambda>f s d w q x. Inr \<lparr>blob_size = 1000, blob_type = file_type f\<rparr>),
      removeBackground = (\<lambda>f. Inr \<lparr>blob_size = 1000, blob_type = ''image/png''\<rparr>)\<rparr>"

definition img_1000x500 :: image where
  "img_1000x500 = \<lparr>img_width = 1000, img_height = 500\<rparr>"



definition photo_png :: jsfile where
  "photo_png = \<lparr>file_name = ''photo.png'', file_type = ''image/png'', file_size = 4000\<rparr>"

definition photo_heic :: jsfile where
  "photo_heic = \<lparr>file_name = ''photo.heic'', file_type = ''image/heic'', file_size = 4000\<rparr>"

definition photo_heif :: jsfile where
  "photo_heif = \<lparr>file_name = ''photo.heif'', file_type = ''image/heif'', file_size = 4000\<rparr>"

definition x_pdf :: jsfile where
  "x_pdf = \<lparr>file_name = ''x.pdf'', file_type = ''image/png'', file_size = 4000\<rparr>"

definition notes_txt :: jsfile where
  "notes_txt = \<lparr>file_name = ''notes.txt'', file_type = ''text/plain'', file_size = 4000\<rparr>"

text \<open>Option values: every field absent, but for the output format of a conversion.\<close>

definition resize_defaults :: ResizeOptions where
  "resize_defaults =
     \<lparr>ro_width = None, ro_height = None, ro_maintainAspectRatio = None,
      ro_quality = None, ro_format = None\<rparr>"

definition convert_to :: "format \<Rightarrow> ConversionOptions" where
  "convert_to fmt =
     \<lparr>co_format = fmt, co_quality = None, co_width = None, co_height = None,
      co_maintainAspectRatio = None, co_scale = None\<rparr>"

definition compress_defaults :: CompressionOptions where
  "compress_defaults =
     \<lparr>cmo_maxSizeMB = None, cmo_maxWidthOrHeight = None, cmo_useWebWorker = None,
      cmo_quality = None, cmo_preserveExif = None\<rparr>"

section \<open>Arithmetic on doubles\<close>

text \<open>
  Rounding to double is exact on the integers below \<open>2\<^sup>5\<^sup>3\<close> in magnitude, symmetric, and
  off by at most half a unit in the last place: a relative error of \<open>2\<^sup>-\<^sup>5\<^sup>3\<close> in the normal
  range, and \<open>2\<^sup>-\<^sup>1\<^sup>0\<^sup>7\<^sup>5\<close> below it. \<open>fl_pos_eqI\<close> computes a rounding from its exponent and
  its significand.
\<close>

lemma round_even_bounds: "\<bar>of_int (round_even x) - x\<bar> \<le> 1 / 2"
proof -
  have "of_int \<lfloor>x\<rfloor> \<le> x" and "x < of_int \<lfloor>x\<rfloor> + 1" by linarith+
  then show ?thesis
    unfolding round_even_def Let_def by (simp add: abs_le_iff)
qed

lemma round_even_eqI:
  assumes "\<bar>x - of_int m\<bar> < 1 / 2"
  shows "round_even x = m"
proof -
  have "\<bar>of_int (round_even x) - x\<bar> \<le> 1 / 2" by (rule round_even_bounds)
  with assms have "\<bar>(of_int (round_even x) :: rat) - of_int m\<bar> < 1" by linarith
  then have "\<bar>round_even x - m\<bar> < 1"
    by (metis of_int_abs of_int_diff of_int_less_1_iff)
  then show ?thesis by linarith
qed

lemma round_even_of_int [simp]: "round_even (of_int k) = k"
  by (rule round_even_eqI) simp

lemma round_even_nonneg: "0 \<le> x \<Longrightarrow> 0 \<le> round_even x"
  unfolding round_even_def Let_def by (auto intro: add_nonneg_nonneg)

lemma ilog2_bounds:
  assumes "0 < x"
  shows "2 powi ilog2 x \<le> x" and "x < 2 powi (ilog2 x + 1)"
proof -
  show "2 powi ilog2 x \<le> x"
  proof (cases "1 \<le> x")
    case True
    then have n: "0 < \<lfloor>x\<rfloor>" by simp
    let ?b = "bitlen \<lfloor>x\<rfloor>"
    from bitlen_bounds [OF n] have "2 ^ nat (?b - 1) \<le> \<lfloor>x\<rfloor>" by simp
    then have "(of_int (2 ^ nat (?b - 1)) :: rat) \<le> of_int \<lfloor>x\<rfloor>" by (simp only: of_int_le_iff)
    also have "\<dots> \<le> x" by simp
    finally have "(2::rat) ^ nat (?b - 1) \<le> x" by simp
    moreover have "1 \<le> ?b" using n by (simp add: bitlen_alt_def)
    ultimately show ?thesis using True by (simp add: ilog2_def power_int_def)
  next
    case False
    with assms have x1: "x < 1" by simp
    then have "1 < 1 / x" using assms by simp
    then have c: "0 < \<lceil>1 / x\<rceil> - 1" by (simp add: less_ceiling_iff)
    let ?b = "bitlen (\<lceil>1 / x\<rceil> - 1)"
    from bitlen_bounds [OF c] have "\<lceil>1 / x\<rceil> - 1 < 2 ^ nat ?b" by simp
    then have "\<lceil>1 / x\<rceil> \<le> 2 ^ nat ?b" by simp
    then have "(of_int \<lceil>1 / x\<rceil> :: rat) \<le> of_int (2 ^ nat ?b)" by (simp only: of_int_le_iff)
    with le_of_int_ceiling [of "1 / x"] have "1 / x \<le> of_int (2 ^ nat ?b)" by (rule order_trans)
    then have "1 / x \<le> 2 ^ nat ?b" by simp
    then have "1 / 2 ^ nat ?b \<le> x" using assms by (simp add: field_simps)
    moreover have "(2::rat) powi (- ?b) = 1 / 2 ^ nat ?b"
      using bitlen_nonneg [of "\<lceil>1 / x\<rceil> - 1"]
      by (simp only: power_int_minus_divide power_int_nonneg_exp)
    ultimately show ?thesis using x1 by (simp add: ilog2_def)
  qed
  show "x < 2 powi (ilog2 x + 1)"
  proof (cases "1 \<le> x")
    case True
    then have n: "0 < \<lfloor>x\<rfloor>" by simp
    let ?b = "bitlen \<lfloor>x\<rfloor>"
    from bitlen_bounds [OF n] have "\<lfloor>x\<rfloor> < 2 ^ nat ?b" by simp
    then have "\<lfloor>x\<rfloor> + 1 \<le> 2 ^ nat ?b" by simp
    then have "(of_int (\<lfloor>x\<rfloor> + 1) :: rat) \<le> of_int (2 ^ nat ?b)" by (simp only: of_int_le_iff)
    moreover have "x < of_int (\<lfloor>x\<rfloor> + 1)" by linarith
    ultimately have "x < 2 ^ nat ?b" by simp
    moreover have "0 \<le> ?b" by (rule bitlen_nonneg)
    ultimately show ?thesis using True by (simp add: ilog2_def power_int_def)
  next
    case False
    with assms have x1: "x < 1" by simp
    then have "1 < 1 / x" using assms by simp
    then have c: "0 < \<lceil>1 / x\<rceil> - 1" by (simp add: less_ceiling_iff)
    let ?b = "bitlen (\<lceil>1 / x\<rceil> - 1)"
    have b1: "1 \<le> ?b" using c by (simp add: bitlen_alt_def)
    from bitlen_bounds [OF c] have "2 ^ nat (?b - 1) \<le> \<lceil>1 / x\<rceil> - 1" by simp
    then have "(of_int (2 ^ nat (?b - 1)) :: rat) \<le> of_int (\<lceil>1 / x\<rceil> - 1)"
      by (simp only: of_int_le_iff)
    moreover have "of_int (\<lceil>1 / x\<rceil> - 1) < 1 / x" using ceiling_correct [of "1 / x"] by simp
    ultimately have "2 ^ nat (?b - 1) < 1 / x" by simp
    then have "x < 1 / 2 ^ nat (?b - 1)" using assms by (simp add: field_simps)
    moreover have "(2::rat) powi (- (?b - 1)) = 1 / 2 ^ nat (?b - 1)"
      using b1 by (simp only: power_int_minus_divide power_int_nonneg_exp diff_ge_0_iff_ge)
    moreover have "- ?b + 1 = - (?b - 1)" by simp
    ultimately show ?thesis using x1 by (simp add: ilog2_def)
  qed
qed

lemma ilog2_unique:
  assumes "0 < x" and "2 powi e \<le> x" and "x < 2 powi (e + 1)"
  shows "ilog2 x = e"
proof -
  from ilog2_bounds [OF assms(1)] assms
  have "(2::rat) powi e < 2 powi (ilog2 x + 1)" and "(2::rat) powi ilog2 x < 2 powi (e + 1)"
    by linarith+
  then have "e < ilog2 x + 1" and "ilog2 x < e + 1"
    by (metis linorder_not_le one_le_numeral power_int_increasing)+
  then show ?thesis by linarith
qed


lemma fl_pos_core:
  assumes x: "0 < x" and hi: "x \<le> 2 powi 1023"
  defines "e \<equiv> max (ilog2 x) (- 1022)"
  defines "r \<equiv> of_int (round_even (x / 2 powi (e - 52))) * 2 powi (e - 52)"
  shows "fl x = Num r" and "0 \<le> r" and "\<bar>r - x\<bar> \<le> 2 powi (e - 53)"
proof -
  let ?u = "(2::rat) powi (e - 52)"
  have u: "0 < ?u" by simp
  have "\<bar>of_int (round_even (x / ?u)) - x / ?u\<bar> \<le> 1 / 2" by (rule round_even_bounds)
  then have "\<bar>of_int (round_even (x / ?u)) - x / ?u\<bar> * ?u \<le> 1 / 2 * ?u"
    using u by (intro mult_right_mono) simp_all
  moreover have "(of_int (round_even (x / ?u)) - x / ?u) * ?u = r - x"
    using u by (simp add: r_def left_diff_distrib)
  then have "\<bar>of_int (round_even (x / ?u)) - x / ?u\<bar> * ?u = \<bar>r - x\<bar>"
    using u by (metis abs_mult abs_of_pos)
  moreover have "1 / 2 * ?u = 2 powi (e - 53)"
    using power_int_add [of "2::rat" "e - 53" 1] by simp
  ultimately show err: "\<bar>r - x\<bar> \<le> 2 powi (e - 53)" by simp
  have "0 \<le> x / ?u" using x u by simp
  then have "0 \<le> round_even (x / ?u)" by (rule round_even_nonneg)
  then show "0 \<le> r" using u by (simp add: r_def)
  have "2 powi ilog2 x \<le> (2::rat) powi 1023"
    using ilog2_bounds(1) [OF x] hi by linarith
  then have "ilog2 x \<le> 1023" by (rule power_int_le_imp_le_exp [rotated]) simp_all
  then have "e \<le> 1023" by (simp add: e_def)
  then have "(2::rat) powi (e - 53) \<le> 2 powi 970"
    by (intro power_int_increasing) simp_all
  moreover have "(2::rat) powi 970 < 2 powi 1023"
    by (intro power_int_strict_increasing) simp_all
  ultimately have "r < 2 powi 1023 + (2::rat) powi 1023" using err hi by linarith
  also have "\<dots> = 2 powi 1024" using power_int_add [of "2::rat" 1023 1] by simp
  finally have "\<not> 2 ^ 1024 \<le> r" by simp
  then show "fl x = Num r" using x by (simp add: fl_def Let_def e_def r_def)
qed

lemma fl_minus:
  "fl (- x) = (case fl x of Num r \<Rightarrow> Num (- r) | PosInf \<Rightarrow> NegInf | NegInf \<Rightarrow> PosInf
               | NaN \<Rightarrow> NaN)"
  by (cases "x = 0"; cases "0 < x") (auto simp: fl_def Let_def)

lemma fl_0 [simp]: "fl 0 = Num 0"
  by (simp add: fl_def)




lemma fl_pos_eqI:
  assumes x: "0 < x"
      and lo: "2 powi e \<le> x" and hi: "x < 2 powi (e + 1)"
      and e: "- 1022 \<le> e" "e \<le> 1022"
      and m: "\<bar>x / 2 powi (e - 52) - of_int m\<bar> < 1 / 2"
      and r: "r = of_int m * 2 powi (e - 52)"
  shows "fl x = Num r"
proof -
  have il: "ilog2 x = e" using x lo hi by (rule ilog2_unique)
  have "(2::rat) powi (e + 1) \<le> 2 powi 1023"
    using e by (intro power_int_increasing) simp_all
  with hi have "x \<le> 2 powi 1023" by linarith
  from fl_pos_core(1) [OF x this] il e
  have "fl x = Num (of_int (round_even (x / 2 powi (e - 52))) * 2 powi (e - 52))" by simp
  moreover have "round_even (x / 2 powi (e - 52)) = m" using m by (rule round_even_eqI)
  ultimately show ?thesis using r by simp
qed

lemma fl_of_int_pos:
  assumes "0 < n" and "n < 2 ^ 53"
  shows "fl (of_int n) = Num (of_int n)"
proof -
  let ?e = "bitlen n - 1"
  have b1: "1 \<le> bitlen n" using assms(1) by (simp add: bitlen_alt_def)
  from bitlen_bounds [OF assms(1)]
  have lo: "2 ^ nat ?e \<le> n" and hi: "n < 2 ^ nat (bitlen n)" by simp_all
  from lo assms(2) have "(2::int) ^ nat ?e < 2 ^ 53" by linarith
  then have "nat ?e < 53" by (rule power_less_imp_less_exp [of 2, rotated]) simp
  then have e52: "?e \<le> 52" by simp
  have e0: "0 \<le> ?e" using b1 by simp
  have plo: "(2::rat) powi ?e \<le> of_int n"
  proof -
    have "(of_int (2 ^ nat ?e) :: rat) \<le> of_int n" using lo by (simp only: of_int_le_iff)
    then show ?thesis using e0 by (simp add: power_int_nonneg_exp)
  qed
  have phi: "(of_int n :: rat) < 2 powi (?e + 1)"
  proof -
    have "(of_int n :: rat) < of_int (2 ^ nat (bitlen n))" using hi by (simp only: of_int_less_iff)
    then show ?thesis using b1 by (simp add: power_int_nonneg_exp)
  qed
  let ?k = "nat (52 - ?e)"
  have u: "(2::rat) powi (?e - 52) = 1 / 2 ^ ?k"
  proof -
    have "?e - 52 = - int ?k" using e52 by simp
    then show ?thesis by (simp only: power_int_minus_divide power_int_of_nat)
  qed
  have m: "\<bar>(of_int n :: rat) / 2 powi (?e - 52) - of_int (n * 2 ^ ?k)\<bar> < 1 / 2"
    unfolding u by simp
  have r: "(of_int n :: rat) = of_int (n * 2 ^ ?k) * 2 powi (?e - 52)"
    unfolding u by simp
  show ?thesis
    by (rule fl_pos_eqI [OF _ plo phi _ _ m r]) (use assms e0 e52 in simp_all)
qed

lemma fl_of_int:
  assumes "\<bar>n\<bar> < 2 ^ 53"
  shows "fl (of_int n) = Num (of_int n)"
proof (cases "0 < n")
  case True
  with assms show ?thesis by (simp add: fl_of_int_pos)
next
  case False
  show ?thesis
  proof (cases "n = 0")
    case True
    then show ?thesis by simp
  next
    case False
    with \<open>\<not> 0 < n\<close> assms have "0 < - n" and "- n < 2 ^ 53" by simp_all
    then have "fl (of_int (- n)) = Num (of_int (- n))" by (rule fl_of_int_pos)
    then have "fl (- of_int (- n)) = Num (of_int n)" by (simp add: fl_minus del: of_int_minus)
    then show ?thesis by simp
  qed
qed

lemma fl_numeral [simp]:
  "numeral k < (2::int) ^ 53 \<Longrightarrow> fl (numeral k) = Num (numeral k)"
  using fl_of_int [of "numeral k"] by simp

lemma fl_1 [simp]: "fl 1 = Num 1"
  using fl_of_int [of 1] by simp

















section \<open>Resize: the target dimensions\<close>






text \<open>
  The quotients and products of the examples, in double arithmetic. The natural ratio
  \<open>100 / 145\<close> is no double; the double nearest to it is a little above, and \<open>150\<close> divided
  by that is the double just below \<open>217.5\<close>. Likewise \<open>100 * (113 / 200)\<close> is the double
  just below \<open>56.5\<close>.
\<close>

lemma js_div_1000_500: "js_div (Num 1000) (Num 500) = Num 2"
  by simp



lemma js_div_113_200:
  "js_div (Num 113) (Num 200) = Num (1272266894732165 / 2251799813685248)"
proof -
  have "fl (113 / 200) = Num (1272266894732165 / 2251799813685248)"
    by (rule fl_pos_eqI [where e = "- 1" and m = 5089067578928660]) simp_all
  then show ?thesis by simp
qed

lemma js_mul_100_ratio:
  "js_mul (Num 100) (Num (1272266894732165 / 2251799813685248))
     = Num (7951668092076031 / 140737488355328)"
proof -
  have "fl (100 * (1272266894732165 / 2251799813685248))
          = Num (7951668092076031 / 140737488355328)"
    by (rule fl_pos_eqI [where e = 5 and m = 7951668092076031]) simp_all
  then show ?thesis by simp
qed


lemma js_round_56: "js_round (Num (7951668092076031 / 140737488355328)) = Num 56"
proof -
  have "\<lfloor>(7951668092076031 / 140737488355328 :: rat) + 1 / 2\<rfloor> = 56"
    by (rule floor_unique) simp_all
  then show ?thesis by simp
qed



section \<open>Compress: the level table and the reported ratio\<close>

lemma getCompressionSettings_level:
  assumes "\<bar>k - 1\<bar> < 2 ^ 53"
  shows "getCompressionSettings (Num (of_int k)) =
     (if 1 \<le> k \<and> k \<le> 5 then settings ! nat (k - 1) else (2, 75 / 100))"
proof -
  have "fl (of_int (k - 1)) = Num (of_int (k - 1))" using assms by (rule fl_of_int)
  then have "js_sub (Num (of_int k)) (Num 1) = Num (of_int (k - 1))" by simp
  moreover have "length settings = 5" by (simp add: settings_def)
  ultimately show ?thesis
    by (simp add: getCompressionSettings_def del: js_sub.simps of_int_diff)
qed

lemma settings_values:
  "settings ! 0 = (5, 95 / 100)" "settings ! Suc 0 = (3, 85 / 100)" "settings ! 2 = (2, 75 / 100)"
  "settings ! 3 = (1, 65 / 100)" "settings ! 4 = (1 / 2, 50 / 100)"
  by (simp_all add: settings_def)

lemma getCompressionSettings_values:
  "getCompressionSettings (Num 1) = (5, 95 / 100)"
  "getCompressionSettings (Num 2) = (3, 85 / 100)"
  "getCompressionSettings (Num 3) = (2, 75 / 100)"
  "getCompressionSettings (Num 4) = (1, 65 / 100)"
  "getCompressionSettings (Num 5) = (1 / 2, 50 / 100)"
  using getCompressionSettings_level [of 1] getCompressionSettings_level [of 2]
    getCompressionSettings_level [of 3] getCompressionSettings_level [of 4]
    getCompressionSettings_level [of 5]
  by (simp_all add: settings_values)

text \<open>
  Claim C8. The table of compression levels is a ladder: for levels \<open>a < b\<close> from 1 to
  5, neither \<^verbatim>\<open>maxSizeMB\<close> nor \<^verbatim>\<open>quality\<close> of level \<open>b\<close> is above that of level \<open>a\<close>.
\<close>

theorem compression_ladder_monotonic:
  fixes a b :: int
  assumes "1 \<le> a" and "a < b" and "b \<le> 5"
  shows "fst (getCompressionSettings (Num (of_int b))) \<le> fst (getCompressionSettings (Num (of_int a)))
       \<and> snd (getCompressionSettings (Num (of_int b))) \<le> snd (getCompressionSettings (Num (of_int a)))"
proof -
  from assms have "a \<in> {1, 2, 3, 4}" and "b \<in> {2, 3, 4, 5}" by auto
  with \<open>a < b\<close> show ?thesis
    by (auto simp: getCompressionSettings_values)
qed

text \<open>
  Level 1 against level 5: \<open>(5, 0.95)\<close> against \<open>(0.5, 0.5)\<close>.
\<close>

theorem compression_ladder_monotonic_witness:
  "fst (getCompressionSettings (Num 5)) \<le> fst (getCompressionSettings (Num 1))
   \<and> snd (getCompressionSettings (Num 5)) \<le> snd (getCompressionSettings (Num 1))
   \<and> getCompressionSettings (Num 1) = (5, 95 / 100)
   \<and> getCompressionSettings (Num 5) = (1 / 2, 50 / 100)"
proof -
  have "(1::int) \<le> 1" and "(1::int) < 5" and "(5::int) \<le> 5" by simp_all
  from compression_ladder_monotonic [OF this]
  have "fst (getCompressionSettings (Num 5)) \<le> fst (getCompressionSettings (Num 1))
   \<and> snd (getCompressionSettings (Num 5)) \<le> snd (getCompressionSettings (Num 1))" by simp
  moreover have "getCompressionSettings (Num 1) = (5, 95 / 100)"
    by (rule getCompressionSettings_values)
  moreover have "getCompressionSettings (Num 5) = (1 / 2, 50 / 100)"
    by (rule getCompressionSettings_values)
  ultimately show ?thesis by blast
qed









section \<open>Convert: format detection and dispatch\<close>

lemma endsWith_suffix: "endsWith s t = suffix t s"
proof
  assume "endsWith s t"
  then have "s = take (length s - length t) s @ t"
    by (metis append_take_drop_id endsWith_def)
  then show "suffix t s" by (rule suffixI)
next
  assume "suffix t s"
  then obtain u where "s = u @ t" by (auto simp: suffix_def)
  then show "endsWith s t" by (simp add: endsWith_def)
qed

lemma startsWith_prefix: "startsWith s t = prefix t s"
proof
  assume "startsWith s t"
  then have "s = t @ drop (length t) s"
    by (metis append_take_drop_id startsWith_def)
  then show "prefix t s" by (rule prefixI)
next
  assume "prefix t s"
  then obtain u where "s = t @ u" by (auto simp: prefix_def)
  then show "startsWith s t" by (simp add: startsWith_def)
qed

lemma convertImage_detect:
  "convertImage e file options =
     (case detect file of
        Pdf \<Rightarrow> convertPdfToRaster e file options
      | Heic \<Rightarrow> convertHeicToRaster e file options
      | Vector \<Rightarrow> convertSvgToRaster e file options
      | Raster \<Rightarrow> convertRasterFormat e file options
      | Unsupported \<Rightarrow>
          ([], Rejected (Error (''Unsupported file type: ''
             @ (if toLowerCase (file_type file) = [] then ''unknown''
                else toLowerCase (file_type file))))))"
  by (simp add: convertImage_def detect_def Let_def endsWith_suffix startsWith_prefix)

text \<open>
  Claim C4. \<^verbatim>\<open>convertImage\<close> dispatches by the ordered classification \<open>detect\<close> of the
  specification, the first rule that matches winning: the PDF converter for \<open>Pdf\<close>, the
  HEIC converter for \<open>Heic\<close>, the SVG converter for \<open>Vector\<close>, the raster converter for
  \<open>Raster\<close>, and a rejection otherwise.
\<close>

theorem convert_dispatch_order:
  "convertImage e file options =
     (case detect file of
        Pdf \<Rightarrow> convertPdfToRaster e file options
      | Heic \<Rightarrow> convertHeicToRaster e file options
      | Vector \<Rightarrow> convertSvgToRaster e file options
      | Raster \<Rightarrow> convertRasterFormat e file options
      | Unsupported \<Rightarrow>
          ([], Rejected (Error (''Unsupported file type: ''
             @ (if toLowerCase (file_type file) = [] then ''unknown''
                else toLowerCase (file_type file))))))"
  by (rule convertImage_detect)

lemma toLowerCase_lower:
  "toLowerCase ''x.pdf'' = ''x.pdf''" "toLowerCase ''image/png'' = ''image/png''"
  "toLowerCase ''notes.txt'' = ''notes.txt''" "toLowerCase ''text/plain'' = ''text/plain''"
  by code_simp+

lemma detect_x_pdf: "detect x_pdf = Pdf"
  by (simp add: detect_def x_pdf_def toLowerCase_lower suffix_def)

text \<open>
  A file named \<^verbatim>\<open>x.pdf\<close> with declared type \<^verbatim>\<open>image/png\<close> goes to the PDF converter, not
  to the raster converter.
\<close>

theorem convert_dispatch_order_witness:
  "detect x_pdf = Pdf
   \<and> convertImage (demo_env img_1000x500) x_pdf (convert_to PNG)
       = convertPdfToRaster (demo_env img_1000x500) x_pdf (convert_to PNG)
   \<and> convertImage (demo_env img_1000x500) x_pdf (convert_to PNG)
       \<noteq> convertRasterFormat (demo_env img_1000x500) x_pdf (convert_to PNG)"
proof -
  have "convertImage (demo_env img_1000x500) x_pdf (convert_to PNG)
       = convertPdfToRaster (demo_env img_1000x500) x_pdf (convert_to PNG)"
    using convert_dispatch_order [of "demo_env img_1000x500" x_pdf "convert_to PNG"]
    by (simp add: detect_x_pdf)
  moreover have "convertPdfToRaster (demo_env img_1000x500) x_pdf (convert_to PNG)
       \<noteq> convertRasterFormat (demo_env img_1000x500) x_pdf (convert_to PNG)"
    by (simp add: convertPdfToRaster_def convertRasterFormat_def demo_env_def convert_to_def
        Let_def js_or_def convertTarget_def img_1000x500_def)
  ultimately show ?thesis using detect_x_pdf by simp
qed

lemma detect_Unsupported_iff:
  "detect file = Unsupported \<longleftrightarrow>
     \<not> (suffix ''.pdf'' (toLowerCase (file_name file))
          \<or> toLowerCase (file_type file) = ''application/pdf'')
     \<and> \<not> (suffix ''.heic'' (toLowerCase (file_name file))
            \<or> suffix ''.heif'' (toLowerCase (file_name file))
            \<or> toLowerCase (file_type file) = ''image/heic''
            \<or> toLowerCase (file_type file) = ''image/heif'')
     \<and> \<not> (toLowerCase (file_type file) = ''image/svg+xml''
            \<or> suffix ''.svg'' (toLowerCase (file_name file)))
     \<and> \<not> prefix ''image/'' (toLowerCase (file_type file))"
  by (simp add: detect_def Let_def)

lemma detect_notes_txt: "detect notes_txt = Unsupported"
  by (simp add: detect_def notes_txt_def toLowerCase_lower suffix_def prefix_def)

text \<open>
  Claim C5. A file that matches none of the PDF, HEIC and SVG rules and whose declared
  type does not begin with \<^verbatim>\<open>image/\<close> (its kind is \<open>Unsupported\<close>, see
  \<open>detect_Unsupported_iff\<close>) makes \<^verbatim>\<open>convertImage\<close> reject, before any encoder is called,
  with an error whose message carries the declared type in lower case, or
  \<^verbatim>\<open>unknown\<close> when the declared type is empty.
\<close>

theorem convert_unsupported_rejected:
  assumes "detect file = Unsupported"
  shows "convertImage e file options =
           ([], Rejected (Error (''Unsupported file type: ''
              @ (if toLowerCase (file_type file) = [] then ''unknown''
                 else toLowerCase (file_type file)))))"
  using assms by (simp add: convertImage_detect)

text \<open>
  A text file is rejected with its declared type in the message.
\<close>

theorem convert_unsupported_rejected_witness:
  "detect notes_txt = Unsupported
   \<and> convertImage (demo_env img_1000x500) notes_txt (convert_to PNG)
       = ([], Rejected (Error ''Unsupported file type: text/plain''))"
  using convert_unsupported_rejected [OF detect_notes_txt, of "demo_env img_1000x500" "convert_to PNG"]
    detect_notes_txt
  by (simp add: notes_txt_def toLowerCase_lower)

section \<open>Quality: what reaches the encode primitive\<close>

lemma js_or_zero: "js_or (Some (Num 0)) d = d" "js_or None d = d"
  by (simp_all add: js_or_def)

lemma resizeImage_calls:
  assumes "c \<in> set (fst (resizeImage e file options))"
  shows "call_quality c = js_or (ro_quality options) (Num (92 / 100))"
  using assms
  by (auto simp: resizeImage_def Let_def split: option.splits prod.splits if_splits)

lemma convertRasterFormat_calls:
  assumes "c \<in> set (fst (convertRasterFormat e file options))"
  shows "call_quality c = js_or (co_quality options) (Num (92 / 100))"
  using assms
  by (auto simp: convertRasterFormat_def Let_def split: option.splits prod.splits if_splits)

lemma convertSvgToRaster_calls:
  assumes "c \<in> set (fst (convertSvgToRaster e file options))"
  shows "call_quality c = js_or (co_quality options) (Num (92 / 100))"
  using assms
  by (auto simp: convertSvgToRaster_def Let_def split: option.splits prod.splits if_splits)

lemma convertPdfToRaster_calls:
  assumes "c \<in> set (fst (convertPdfToRaster e file options))"
  shows "call_quality c = js_or (co_quality options) (Num (92 / 100))"
  using assms
  by (auto simp: convertPdfToRaster_def Let_def
           split: option.splits prod.splits if_splits sum.splits)

lemma convertHeicToRaster_calls:
  assumes "c \<in> set (fst (convertHeicToRaster e file options))"
  shows "call_quality c = js_or (co_quality options) (Num (92 / 100))"
  using assms
  by (auto simp: convertHeicToRaster_def Let_def
           split: option.splits sum.splits heic_result.splits list.splits)

lemma convertImage_calls:
  assumes "c \<in> set (fst (convertImage e file options))"
  shows "call_quality c = js_or (co_quality options) (Num (92 / 100))"
  using assms convertRasterFormat_calls convertSvgToRaster_calls convertPdfToRaster_calls
    convertHeicToRaster_calls
  by (cases "detect file") (auto simp: convertImage_detect)

lemma compressImage_calls:
  assumes "c \<in> set (fst (compressImage e file options))"
  shows "call_quality c = js_or (cmo_quality options) (Num (8 / 10))"
  using assms by (auto simp: compressImage_def Let_def split: sum.splits)


lemma resizeImage_cong:
  assumes "ro_width a = ro_width b" and "ro_height a = ro_height b"
      and "ro_maintainAspectRatio a = ro_maintainAspectRatio b"
      and "ro_format a = ro_format b"
      and "js_or (ro_quality a) (Num (92 / 100)) = js_or (ro_quality b) (Num (92 / 100))"
  shows "resizeImage e file a = resizeImage e file b"
  unfolding resizeImage_def resizeTarget_def assms by (rule refl)

lemma convertRasterFormat_cong:
  assumes "co_width a = co_width b" and "co_height a = co_height b"
      and "co_maintainAspectRatio a = co_maintainAspectRatio b"
      and "co_format a = co_format b" and "co_scale a = co_scale b"
      and "js_or (co_quality a) (Num (92 / 100)) = js_or (co_quality b) (Num (92 / 100))"
  shows "convertRasterFormat e file a = convertRasterFormat e file b"
  unfolding convertRasterFormat_def convertTarget_def assms by (rule refl)

lemma convertSvgToRaster_cong:
  assumes "co_width a = co_width b" and "co_height a = co_height b"
      and "co_maintainAspectRatio a = co_maintainAspectRatio b"
      and "co_format a = co_format b" and "co_scale a = co_scale b"
      and "js_or (co_quality a) (Num (92 / 100)) = js_or (co_quality b) (Num (92 / 100))"
  shows "convertSvgToRaster e file a = convertSvgToRaster e file b"
  unfolding convertSvgToRaster_def assms by (rule refl)

lemma convertPdfToRaster_cong:
  assumes "co_width a = co_width b" and "co_height a = co_height b"
      and "co_maintainAspectRatio a = co_maintainAspectRatio b"
      and "co_format a = co_format b" and "co_scale a = co_scale b"
      and "js_or (co_quality a) (Num (92 / 100)) = js_or (co_quality b) (Num (92 / 100))"
  shows "convertPdfToRaster e file a = convertPdfToRaster e file b"
  unfolding convertPdfToRaster_def assms by (rule refl)

lemma convertHeicToRaster_cong:
  assumes "co_width a = co_width b" and "co_height a = co_height b"
      and "co_maintainAspectRatio a = co_maintainAspectRatio b"
      and "co_format a = co_format b" and "co_scale a = co_scale b"
      and "js_or (co_quality a) (Num (92 / 100)) = js_or (co_quality b) (Num (92 / 100))"
  shows "convertHeicToRaster e file a = convertHeicToRaster e file b"
  unfolding convertHeicToRaster_def assms by (rule refl)

lemma convertImage_cong:
  assumes "co_width a = co_width b" and "co_height a = co_height b"
      and "co_maintainAspectRatio a = co_maintainAspectRatio b"
      and "co_format a = co_format b" and "co_scale a = co_scale b"
      and "js_or (co_quality a) (Num (92 / 100)) = js_or (co_quality b) (Num (92 / 100))"
  shows "convertImage e file a = convertImage e file b"
  unfolding convertImage_def
    convertRasterFormat_cong [OF assms] convertSvgToRaster_cong [OF assms]
    convertPdfToRaster_cong [OF assms] convertHeicToRaster_cong [OF assms]
  by (rule refl)

lemma compressImage_cong:
  assumes "cmo_maxSizeMB a = cmo_maxSizeMB b"
      and "cmo_maxWidthOrHeight a = cmo_maxWidthOrHeight b"
      and "cmo_useWebWorker a = cmo_useWebWorker b"
      and "cmo_preserveExif a = cmo_preserveExif b"
      and "js_or (cmo_quality a) (Num (8 / 10)) = js_or (cmo_quality b) (Num (8 / 10))"
  shows "compressImage e file a = compressImage e file b"
  unfolding compressImage_def assms by (rule refl)

lemma resizeImage_quality_zero:
  "resizeImage e file (options\<lparr>ro_quality := Some (Num 0)\<rparr>)
     = resizeImage e file (options\<lparr>ro_quality := None\<rparr>)"
  by (rule resizeImage_cong) (simp_all add: js_or_zero)

lemma convertImage_quality_zero:
  "convertImage e file (options\<lparr>co_quality := Some (Num 0)\<rparr>)
     = convertImage e file (options\<lparr>co_quality := None\<rparr>)"
  by (rule convertImage_cong) (simp_all add: js_or_zero)

lemma compressImage_quality_zero:
  "compressImage e file (options\<lparr>cmo_quality := Some (Num 0)\<rparr>)
     = compressImage e file (options\<lparr>cmo_quality := None\<rparr>)"
  by (rule compressImage_cong) (simp_all add: js_or_zero)

text \<open>
  Claim C10. A quality of 0 is the same as no quality: \<^verbatim>\<open>convertImage\<close>,
  \<^verbatim>\<open>resizeImage\<close> and \<^verbatim>\<open>compressImage\<close> make the same encoder calls and settle the same way
  for both, and every encoder call then carries the default of the operation, 0.92 for
  convert and resize and 0.8 for compress.
\<close>

theorem quality_zero_is_default:
  "convertImage e file (co\<lparr>co_quality := Some (Num 0)\<rparr>)
     = convertImage e file (co\<lparr>co_quality := None\<rparr>)
   \<and> resizeImage e file (ro\<lparr>ro_quality := Some (Num 0)\<rparr>)
     = resizeImage e file (ro\<lparr>ro_quality := None\<rparr>)
   \<and> compressImage e file (cmo\<lparr>cmo_quality := Some (Num 0)\<rparr>)
     = compressImage e file (cmo\<lparr>cmo_quality := None\<rparr>)
   \<and> (\<forall>c \<in> set (fst (convertImage e file (co\<lparr>co_quality := Some (Num 0)\<rparr>))).
         call_quality c = Num (92 / 100))
   \<and> (\<forall>c \<in> set (fst (resizeImage e file (ro\<lparr>ro_quality := Some (Num 0)\<rparr>))).
         call_quality c = Num (92 / 100))
   \<and> (\<forall>c \<in> set (fst (compressImage e file (cmo\<lparr>cmo_quality := Some (Num 0)\<rparr>))).
         call_quality c = Num (8 / 10))"
proof -
  have "\<forall>c \<in> set (fst (convertImage e file (co\<lparr>co_quality := Some (Num 0)\<rparr>))).
          call_quality c = Num (92 / 100)"
    using convertImage_calls [of _ e "file" "co\<lparr>co_quality := Some (Num 0)\<rparr>"]
    by (simp add: js_or_zero)
  moreover have "\<forall>c \<in> set (fst (resizeImage e file (ro\<lparr>ro_quality := Some (Num 0)\<rparr>))).
          call_quality c = Num (92 / 100)"
    using resizeImage_calls [of _ e "file" "ro\<lparr>ro_quality := Some (Num 0)\<rparr>"]
    by (simp add: js_or_zero)
  moreover have "\<forall>c \<in> set (fst (compressImage e file (cmo\<lparr>cmo_quality := Some (Num 0)\<rparr>))).
          call_quality c = Num (8 / 10)"
    using compressImage_calls [of _ e "file" "cmo\<lparr>cmo_quality := Some (Num 0)\<rparr>"]
    by (simp add: js_or_zero)
  ultimately show ?thesis
    using convertImage_quality_zero resizeImage_quality_zero compressImage_quality_zero
    by blast
qed

lemma toLowerCase_photo:
  "toLowerCase ''photo.png'' = ''photo.png''" "toLowerCase ''image/png'' = ''image/png''"
  by code_simp+

lemma detect_photo_png: "detect photo_png = Raster"
  by (simp add: detect_def photo_png_def toLowerCase_photo suffix_def prefix_def)

lemma resizeImage_demo_calls:
  "\<exists>c. fst (resizeImage (demo_env img) file options) = [c]"
  by (simp add: resizeImage_def demo_env_def Let_def split: prod.splits)

lemma convertImage_demo_calls:
  "\<exists>c. fst (convertImage (demo_env img) photo_png options) = [c]"
  by (simp add: convertImage_detect detect_photo_png convertRasterFormat_def demo_env_def
        Let_def split: prod.splits)

lemma compressImage_demo_calls:
  "\<exists>c. fst (compressImage (demo_env img) file options) = [c]"
  by (simp add: compressImage_def demo_env_def Let_def)

text \<open>
  With every collaborator succeeding, each operation calls its encoder once, with the
  default quality, when asked for quality 0.
\<close>

theorem quality_zero_is_default_witness:
  "map call_quality (fst (convertImage (demo_env img_1000x500) photo_png
       ((convert_to JPG)\<lparr>co_quality := Some (Num 0)\<rparr>))) = [Num (92 / 100)]
   \<and> map call_quality (fst (resizeImage (demo_env img_1000x500) photo_png
       (resize_defaults\<lparr>ro_quality := Some (Num 0)\<rparr>))) = [Num (92 / 100)]
   \<and> map call_quality (fst (compressImage (demo_env img_1000x500) photo_png
       (compress_defaults\<lparr>cmo_quality := Some (Num 0)\<rparr>))) = [Num (8 / 10)]"
proof -
  let ?e = "demo_env img_1000x500"
  note t = quality_zero_is_default [of ?e photo_png "convert_to JPG" resize_defaults
      compress_defaults]
  obtain c1 where c1: "fst (convertImage ?e photo_png
      ((convert_to JPG)\<lparr>co_quality := Some (Num 0)\<rparr>)) = [c1]"
    using convertImage_demo_calls by blast
  obtain c2 where c2: "fst (resizeImage ?e photo_png
      (resize_defaults\<lparr>ro_quality := Some (Num 0)\<rparr>)) = [c2]"
    using resizeImage_demo_calls by blast
  obtain c3 where c3: "fst (compressImage ?e photo_png
      (compress_defaults\<lparr>cmo_quality := Some (Num 0)\<rparr>)) = [c3]"
    using compressImage_demo_calls by blast
  from t c1 have "call_quality c1 = Num (92 / 100)" by simp
  moreover from t c2 have "call_quality c2 = Num (92 / 100)" by simp
  moreover from t c3 have "call_quality c3 = Num (8 / 10)" by simp
  ultimately show ?thesis using c1 c2 c3 by simp
qed

text \<open>
  Claim C3 as stated fails: asked for quality 5, each of the three operations hands 5 to
  its encoder and resolves; nothing is rejected and nothing is clamped.
\<close>

theorem quality_not_clamped_counterexample:
  "map call_quality (fst (convertImage (demo_env img_1000x500) photo_png
       ((convert_to JPG)\<lparr>co_quality := Some (Num 5)\<rparr>))) = [Num 5]
   \<and> resolved (snd (convertImage (demo_env img_1000x500) photo_png
       ((convert_to JPG)\<lparr>co_quality := Some (Num 5)\<rparr>)))
   \<and> map call_quality (fst (resizeImage (demo_env img_1000x500) photo_png
       (resize_defaults\<lparr>ro_quality := Some (Num 5)\<rparr>))) = [Num 5]
   \<and> resolved (snd (resizeImage (demo_env img_1000x500) photo_png
       (resize_defaults\<lparr>ro_quality := Some (Num 5)\<rparr>)))
   \<and> map call_quality (fst (compressImage (demo_env img_1000x500) photo_png
       (compress_defaults\<lparr>cmo_quality := Some (Num 5)\<rparr>))) = [Num 5]
   \<and> resolved (snd (compressImage (demo_env img_1000x500) photo_png
       (compress_defaults\<lparr>cmo_quality := Some (Num 5)\<rparr>)))
   \<and> \<not> quality_in_range (Num 5)"
  by (simp add: convertImage_detect detect_photo_png convertRasterFormat_def resizeImage_def
      compressImage_def demo_env_def convert_to_def resize_defaults_def compress_defaults_def
      js_or_def Let_def split: prod.splits)

text \<open>
  Claim C3, amended. Every encoder call of \<^verbatim>\<open>convertImage\<close>, \<^verbatim>\<open>resizeImage\<close> and
  \<^verbatim>\<open>compressImage\<close> carries \<^verbatim>\<open>options.quality || default\<close>: the caller's quality as it
  is when it is truthy (any non-zero number, inside \<open>[0, 1]\<close> or not), and otherwise the
  default of the operation, 0.92 for convert and resize and 0.8 for compress.
\<close>

theorem quality_passed_unclamped:
  "(\<forall>c \<in> set (fst (convertImage e file co)).
       call_quality c = (if truthy (co_quality co) then the (co_quality co) else Num (92 / 100)))
   \<and> (\<forall>c \<in> set (fst (resizeImage e file ro)).
       call_quality c = (if truthy (ro_quality ro) then the (ro_quality ro) else Num (92 / 100)))
   \<and> (\<forall>c \<in> set (fst (compressImage e file cmo)).
       call_quality c = (if truthy (cmo_quality cmo) then the (cmo_quality cmo) else Num (8 / 10)))"
  using convertImage_calls [of _ e "file" co]
    resizeImage_calls [of _ e "file" ro]
    compressImage_calls [of _ e "file" cmo]
  by (simp add: js_or_def)

text \<open>
  Quality 0.5 reaches the encoder of convert as 0.5, quality -1 reaches the encoder of
  resize as -1, and no quality reaches the encoder of compress as 0.8.
\<close>

theorem quality_passed_unclamped_witness:
  "map call_quality (fst (convertImage (demo_env img_1000x500) photo_png
       ((convert_to JPG)\<lparr>co_quality := Some (Num (1 / 2))\<rparr>))) = [Num (1 / 2)]
   \<and> map call_quality (fst (resizeImage (demo_env img_1000x500) photo_png
       (resize_defaults\<lparr>ro_quality := Some (Num (-1))\<rparr>))) = [Num (-1)]
   \<and> map call_quality (fst (compressImage (demo_env img_1000x500) photo_png
       compress_defaults)) = [Num (8 / 10)]"
proof -
  let ?e = "demo_env img_1000x500"
  let ?co = "(convert_to JPG)\<lparr>co_quality := Some (Num (1 / 2))\<rparr>"
  let ?ro = "resize_defaults\<lparr>ro_quality := Some (Num (-1))\<rparr>"
  note t = quality_passed_unclamped [of ?e photo_png ?co ?ro compress_defaults]
  obtain c1 where c1: "fst (convertImage ?e photo_png ?co) = [c1]"
    using convertImage_demo_calls by blast
  obtain c2 where c2: "fst (resizeImage ?e photo_png ?ro) = [c2]"
    using resizeImage_demo_calls by blast
  obtain c3 where c3: "fst (compressImage ?e photo_png compress_defaults) = [c3]"
    using compressImage_demo_calls by blast
  from t c1 have "call_quality c1 = Num (1 / 2)" by (simp add: convert_to_def)
  moreover from t c2 have "call_quality c2 = Num (-1)" by (simp add: resize_defaults_def)
  moreover from t c3 have "call_quality c3 = Num (8 / 10)" by (simp add: compress_defaults_def)
  ultimately show ?thesis using c1 c2 c3 by simp
qed

section \<open>Both dimensions given, and output file names\<close>

text \<open>
  Resize with both dimensions given and the lock on fits the image within the box: both
  natural dimensions are multiplied by the smaller of \<^verbatim>\<open>w / naturalW\<close> and
  \<^verbatim>\<open>h / naturalH\<close> and rounded, all in double arithmetic.
\<close>

lemma resizeTarget_both:
  assumes "ro_maintainAspectRatio options \<noteq> Some False"
      and "ro_width options = Some (Num w)" and "w \<noteq> 0"
      and "ro_height options = Some (Num h)" and "h \<noteq> 0"
  shows "resizeTarget W H options =
           (js_round (js_mul (Num (of_nat W))
              (js_min (js_div (Num w) (Num (of_nat W))) (js_div (Num h) (Num (of_nat H))))),
            js_round (js_mul (Num (of_nat H))
              (js_min (js_div (Num w) (Num (of_nat W))) (js_div (Num h) (Num (of_nat H))))))"
  using assms
  by (simp add: resizeTarget_def js_or_def Let_def
           del: js_div.simps js_mul.simps js_min.simps js_round.simps)

text \<open>
  An image of 114 by 152 asked into 1200 by 630 becomes 472 by 630: the scale factor
  \<open>630 / 152\<close> is no double, and 114 times the double nearest to it is the double just
  below \<open>472.5\<close>.
\<close>

lemma resizeTarget_114x152:
  "resizeTarget 114 152
     (resize_defaults\<lparr>ro_width := Some (Num 1200), ro_height := Some (Num 630)\<rparr>)
     = (Num 472, Num 630)"
proof -
  have d1: "js_div (Num 1200) (Num 114) = Num (740723622922779 / 70368744177664)"
  proof -
    have "fl (1200 / 114) = Num (740723622922779 / 70368744177664)"
      by (rule fl_pos_eqI [where e = 3 and m = 5925788983382232]) simp_all
    then show ?thesis by simp
  qed
  have d2: "js_div (Num 630) (Num 152) = Num (4666558824413507 / 1125899906842624)"
  proof -
    have "fl (630 / 152) = Num (4666558824413507 / 1125899906842624)"
      by (rule fl_pos_eqI [where e = 2 and m = 4666558824413507]) simp_all
    then show ?thesis by simp
  qed
  have mn: "js_min (Num (740723622922779 / 70368744177664))
              (Num (4666558824413507 / 1125899906842624))
            = Num (4666558824413507 / 1125899906842624)"
    by simp
  have m1: "js_mul (Num 114) (Num (4666558824413507 / 1125899906842624))
              = Num (8312307905986559 / 17592186044416)"
  proof -
    have "fl (114 * (4666558824413507 / 1125899906842624))
            = Num (8312307905986559 / 17592186044416)"
      by (rule fl_pos_eqI [where e = 8 and m = 8312307905986559]) simp_all
    then show ?thesis by simp
  qed
  have m2: "js_mul (Num 152) (Num (4666558824413507 / 1125899906842624)) = Num 630"
  proof -
    have "fl (152 * (4666558824413507 / 1125899906842624)) = Num 630"
      by (rule fl_pos_eqI [where e = 9 and m = 5541538603991040]) simp_all
    then show ?thesis by simp
  qed
  have r1: "js_round (Num (8312307905986559 / 17592186044416)) = Num 472"
  proof -
    have "\<lfloor>(8312307905986559 / 17592186044416 :: rat) + 1 / 2\<rfloor> = 472"
      by (rule floor_unique) simp_all
    then show ?thesis by simp
  qed
  have r2: "js_round (Num 630) = Num 630"
  proof -
    have "\<lfloor>(630::rat) + 1 / 2\<rfloor> = 630" by (rule floor_unique) simp_all
    then show ?thesis by simp
  qed
  have "resizeTarget 114 152
     (resize_defaults\<lparr>ro_width := Some (Num 1200), ro_height := Some (Num 630)\<rparr>)
     = (js_round (js_mul (Num 114)
          (js_min (js_div (Num 1200) (Num 114)) (js_div (Num 630) (Num 152)))),
        js_round (js_mul (Num 152)
          (js_min (js_div (Num 1200) (Num 114)) (js_div (Num 630) (Num 152)))))"
    using resizeTarget_both [of "resize_defaults\<lparr>ro_width := Some (Num 1200),
        ro_height := Some (Num 630)\<rparr>" 1200 630 114 152]
    by (simp add: resize_defaults_def
             del: js_div.simps js_mul.simps js_min.simps js_round.simps)
  then show ?thesis by (simp only: d1 d2 mn m1 m2 r1 r2)
qed

text \<open>
  The raster converter computes a missing dimension as resize does, when its lock is
  set: an image of 113 by 200 asked to the height 100 gets the width 56.
\<close>

lemma convertTarget_113x200:
  "convertTarget 113 200
     ((convert_to PNG)\<lparr>co_height := Some (Num 100), co_maintainAspectRatio := Some True\<rparr>)
     = (Num 56, Num 100)"
proof -
  have "convertTarget 113 200
     ((convert_to PNG)\<lparr>co_height := Some (Num 100), co_maintainAspectRatio := Some True\<rparr>)
     = (js_round (js_mul (Num 100) (js_div (Num 113) (Num 200))), Num 100)"
    by (simp add: convertTarget_def convert_to_def js_or_def Let_def
             del: js_div.simps js_mul.simps js_round.simps)
  then show ?thesis by (simp only: js_div_113_200 js_mul_100_ratio js_round_56)
qed

text \<open>
  The scale factors of a request of 400 by 400 on an image of 1000 by 500, in double
  arithmetic: the smaller one is the double nearest to \<open>0.4\<close>, and both products round to
  integers.
\<close>

lemma js_div_400_1000:
  "js_div (Num 400) (Num 1000) = Num (3602879701896397 / 9007199254740992)"
proof -
  have "fl (400 / 1000) = Num (3602879701896397 / 9007199254740992)"
    by (rule fl_pos_eqI [where e = "- 2" and m = 7205759403792794]) simp_all
  then show ?thesis by simp
qed

lemma js_div_400_500:
  "js_div (Num 400) (Num 500) = Num (3602879701896397 / 4503599627370496)"
proof -
  have "fl (400 / 500) = Num (3602879701896397 / 4503599627370496)"
    by (rule fl_pos_eqI [where e = "- 1" and m = 7205759403792794]) simp_all
  then show ?thesis by simp
qed

lemma js_min_ratios:
  "js_min (Num (3602879701896397 / 9007199254740992)) (Num (3602879701896397 / 4503599627370496))
     = Num (3602879701896397 / 9007199254740992)"
  by simp

lemma js_mul_1000_ratio:
  "js_mul (Num 1000) (Num (3602879701896397 / 9007199254740992)) = Num 400"
proof -
  have "fl (1000 * (3602879701896397 / 9007199254740992)) = Num 400"
    by (rule fl_pos_eqI [where e = 8 and m = 7036874417766400]) simp_all
  then show ?thesis by simp
qed

lemma js_mul_500_ratio:
  "js_mul (Num 500) (Num (3602879701896397 / 9007199254740992)) = Num 200"
proof -
  have "fl (500 * (3602879701896397 / 9007199254740992)) = Num 200"
    by (rule fl_pos_eqI [where e = 7 and m = 7036874417766400]) simp_all
  then show ?thesis by simp
qed

lemma js_round_400_200: "js_round (Num 400) = Num 400" "js_round (Num 200) = Num 200"
proof -
  have "\<lfloor>(400::rat) + 1 / 2\<rfloor> = 400" and "\<lfloor>(200::rat) + 1 / 2\<rfloor> = 200"
    by (rule floor_unique; simp)+
  then show "js_round (Num 400) = Num 400" "js_round (Num 200) = Num 200" by simp_all
qed

text \<open>
  Claim C2: with both dimensions given and the lock on, every transform that takes a
  width and a height fits the image within the box. The raster converter does not.
  Asked for 400 by 400 with \<^verbatim>\<open>maintainAspectRatio: true\<close> on an image of 1000 by 500,
  \<^verbatim>\<open>convertImage\<close> draws the image stretched on a canvas of 400 by 400 and resolves:
  its lock handles one given dimension only. \<^verbatim>\<open>resizeImage\<close> computes 400 by 200 for
  the same request.
\<close>

theorem convert_stretches_with_both_dimensions:
  "convertTarget 1000 500
     ((convert_to PNG)\<lparr>co_width := Some (Num 400), co_height := Some (Num 400),
                        co_maintainAspectRatio := Some True\<rparr>) = (Num 400, Num 400)
   \<and> map call_canvas (fst (convertImage (demo_env img_1000x500) photo_png
       ((convert_to PNG)\<lparr>co_width := Some (Num 400), co_height := Some (Num 400),
                          co_maintainAspectRatio := Some True\<rparr>)))
     = [Some (Canvas (Num 400) (Num 400)
               [DrawImage img_1000x500 (Num 0) (Num 0) (Num 400) (Num 400)])]
   \<and> resolved (snd (convertImage (demo_env img_1000x500) photo_png
       ((convert_to PNG)\<lparr>co_width := Some (Num 400), co_height := Some (Num 400),
                          co_maintainAspectRatio := Some True\<rparr>)))
   \<and> resizeTarget 1000 500
       (resize_defaults\<lparr>ro_width := Some (Num 400), ro_height := Some (Num 400),
                         ro_maintainAspectRatio := Some True\<rparr>) = (Num 400, Num 200)"
proof -
  have a: "convertTarget 1000 500
     ((convert_to PNG)\<lparr>co_width := Some (Num 400), co_height := Some (Num 400),
                        co_maintainAspectRatio := Some True\<rparr>) = (Num 400, Num 400)"
    by (simp add: convertTarget_def convert_to_def js_or_def)
  have b: "convertImage (demo_env img_1000x500) photo_png
       ((convert_to PNG)\<lparr>co_width := Some (Num 400), co_height := Some (Num 400),
                          co_maintainAspectRatio := Some True\<rparr>)
     = ([ToBlob (Canvas (Num 400) (Num 400)
               [DrawImage img_1000x500 (Num 0) (Num 0) (Num 400) (Num 400)])
           ''image/png'' (Num (92 / 100))],
        Resolved \<lparr>cr_blob = \<lparr>blob_size = 1000, blob_type = ''image/png''\<rparr>,
          cr_url = ''blob:demo'', cr_filename = ''photo.png'', cr_originalSize = 4000,
          cr_newSize = 1000, cr_format = ''png''\<rparr>)"
    unfolding convertImage_detect detect_photo_png
    by (simp add: convertRasterFormat_def convertTarget_def demo_env_def
        img_1000x500_def convert_to_def js_or_def photo_png_def Let_def)
  have "resizeTarget 1000 500
       (resize_defaults\<lparr>ro_width := Some (Num 400), ro_height := Some (Num 400),
                         ro_maintainAspectRatio := Some True\<rparr>)
      = (let ratio = js_min (js_div (Num 400) (Num 1000)) (js_div (Num 400) (Num 500))
         in (js_round (js_mul (Num 1000) ratio), js_round (js_mul (Num 500) ratio)))"
    by (simp add: resizeTarget_def resize_defaults_def js_or_def Let_def
             del: js_div.simps js_mul.simps js_min.simps js_round.simps)
  also have "\<dots> = (Num 400, Num 200)"
    by (simp only: Let_def js_div_400_1000 js_div_400_500 js_min_ratios
          js_mul_1000_ratio js_mul_500_ratio js_round_400_200)
  finally have c: "resizeTarget 1000 500
       (resize_defaults\<lparr>ro_width := Some (Num 400), ro_height := Some (Num 400),
                         ro_maintainAspectRatio := Some True\<rparr>) = (Num 400, Num 200)" .
  from a b c show ?thesis by simp
qed

lemma replace_ext_strips:
  assumes "ext \<noteq> []" and "CHR ''.'' \<notin> set ext"
  shows "replace_ext (base @ ''.'' @ ext) r = base @ r"
  using assms by (induction base) auto

lemma replace_ext_noslash_strips:
  assumes "ext \<noteq> []" and "CHR ''.'' \<notin> set ext" and "CHR ''/'' \<notin> set ext"
  shows "replace_ext_noslash (base @ ''.'' @ ext) r = base @ r"
  using assms by (induction base) auto

lemma replace_ext_unchanged:
  assumes "CHR ''.'' \<notin> set s"
  shows "replace_ext s r = s"
  using assms by (induction s) auto

lemma resizeImage_filename:
  assumes "resizeImage e file options = (calls, Resolved r)"
      and "file_name file = base @ ''.'' @ ext" and "ext \<noteq> []" and "CHR ''.'' \<notin> set ext"
  shows "rr_filename r =
           base @ ''_'' @ numToString (numFmt e) (rr_newWidth r) @ ''x''
             @ numToString (numFmt e) (rr_newHeight r) @ ''.''
             @ (case (case ro_format options of Some f \<Rightarrow> f | None \<Rightarrow> getFormatFromFile file) of
                  JPEG \<Rightarrow> ''jpg'' | f \<Rightarrow> format_str f)"
  using assms(1) replace_ext_strips [OF assms(3,4), of base]
  by (auto simp: resizeImage_def Let_def assms(2)
           split: option.splits prod.splits if_splits format.splits)

lemma convertRasterFormat_filename:
  assumes "convertRasterFormat e file options = (calls, Resolved r)"
      and "file_name file = base @ ''.'' @ ext" and "ext \<noteq> []" and "CHR ''.'' \<notin> set ext"
  shows "cr_filename r =
           base @ ''.'' @ (case co_format options of JPEG \<Rightarrow> ''jpg'' | f \<Rightarrow> format_str f)"
  using assms(1) replace_ext_strips [OF assms(3,4), of base]
  by (auto simp: convertRasterFormat_def Let_def assms(2)
           split: option.splits prod.splits if_splits format.splits)

lemma removeBgFromImage_filename:
  assumes "removeBgFromImage e file options = (calls, Resolved r)"
      and "file_name file = base @ ''.'' @ ext" and "ext \<noteq> []" and "CHR ''.'' \<notin> set ext"
      and "CHR ''/'' \<notin> set ext"
  shows "br_filename r =
           base @ ''_no-bg.''
             @ format_str (case bo_format options of None \<Rightarrow> PNG | Some f \<Rightarrow> f)"
  using assms(1) replace_ext_noslash_strips [OF assms(3,4,5), of base "[]"]
  by (auto simp: removeBgFromImage_def Let_def assms(2)
           split: option.splits sum.splits if_splits)


lemma toLowerCase_heif:
  "toLowerCase ''photo.heif'' = ''photo.heif''" "toLowerCase ''image/heif'' = ''image/heif''"
  "toLowerCase ''photo.heic'' = ''photo.heic''" "toLowerCase ''image/heic'' = ''image/heic''"
  by code_simp+

lemma detect_photo_heif: "detect photo_heif = Heic"
  by (simp add: detect_def photo_heif_def toLowerCase_heif suffix_def)

lemma detect_photo_heic: "detect photo_heic = Heic"
  by (simp add: detect_def photo_heic_def toLowerCase_heif suffix_def)

lemma convertImage_photo_heic:
  "map_option cr_filename (settled_value (snd
       (convertImage (demo_env img_1000x500) photo_heic (convert_to JPG))))
     = Some ''photo.jpg''"
  unfolding convertImage_detect detect_photo_heic
  by (simp add: convertHeicToRaster_def demo_env_def convert_to_def photo_heic_def
      replace_suffix_ci_def endsWith_def toLowerCase_heif Let_def)

text \<open>
  Claim C6: the output file name is the input name with its extension stripped and the
  extension of the target format appended, for every supported input, HEIF included.
  The code misses HEIF. A HEIF file is dispatched to the HEIC converter, which replaces
  the extension \<^verbatim>\<open>.heic\<close> only: \<^verbatim>\<open>photo.heif\<close> converted to \<^verbatim>\<open>jpg\<close> keeps the name
  \<^verbatim>\<open>photo.heif\<close>. The lemmas before and after give the cases in which the extension is
  replaced: \<^verbatim>\<open>photo.heic\<close> becomes \<^verbatim>\<open>photo.jpg\<close>, a resize of \<^verbatim>\<open>photo.png\<close> to 400 by
  300 gives \<^verbatim>\<open>photo_400x300.png\<close>, and background removal to \<^verbatim>\<open>jpg\<close> gives
  \<^verbatim>\<open>photo_no-bg.jpg\<close>.
\<close>

theorem heif_extension_kept:
  "detect photo_heif = Heic
   \<and> map_option cr_filename (settled_value (snd
         (convertImage (demo_env img_1000x500) photo_heif (convert_to JPG))))
       = Some ''photo.heif''
   \<and> map_option cr_format (settled_value (snd
         (convertImage (demo_env img_1000x500) photo_heif (convert_to JPG))))
       = Some ''jpg''"
  unfolding convertImage_detect detect_photo_heif
  by (simp add: convertHeicToRaster_def demo_env_def convert_to_def photo_heif_def
      replace_suffix_ci_def endsWith_def toLowerCase_heif Let_def)

lemma digits_400_300: "digits 400 = ''400''" "digits 300 = ''300''"
  by code_simp+

lemma resizeImage_photo_400x300:
  "map_option rr_filename (settled_value (snd
       (resizeImage (demo_env img_1000x500) photo_png
          (resize_defaults\<lparr>ro_width := Some (Num 400), ro_height := Some (Num 300),
                            ro_maintainAspectRatio := Some False\<rparr>))))
     = Some ''photo_400x300.png''"
proof -
  have "getFormatFromFile photo_png = PNG"
    by (simp add: getFormatFromFile_def photo_png_def toLowerCase_photo startsWith_def)
  then show ?thesis
    by (simp add: resizeImage_def resizeTarget_def demo_env_def resize_defaults_def
        js_or_def numToString_def digits_400_300 Let_def)
      (simp add: photo_png_def)
qed

lemma removeBgFromImage_photo_jpg:
  "map_option br_filename (settled_value (snd
       (removeBgFromImage (demo_env img_1000x500) photo_png
          \<lparr>bo_format = Some JPG, bo_quality = None\<rparr>)))
     = Some ''photo_no-bg.jpg''"
  by (simp add: removeBgFromImage_def demo_env_def photo_png_def Let_def)

section \<open>The alpha rule, path by path\<close>

text \<open>
  Resize, raster conversion and SVG conversion hand the encoder a canvas that obeys the
  rule: for \<^verbatim>\<open>jpg\<close> and \<^verbatim>\<open>jpeg\<close> the image lies over opaque white, for \<^verbatim>\<open>png\<close> and
  \<^verbatim>\<open>webp\<close> it lies over transparency.
\<close>

lemma resizeImage_alpha_rule:
  assumes "c \<in> set (fst (resizeImage e file ro))" and "call_canvas c = Some cv"
  shows "alpha_rule (case ro_format ro of Some f \<Rightarrow> f | None \<Rightarrow> getFormatFromFile file) cv"
  using assms
  by (auto simp: resizeImage_def Let_def alpha_rule_def
           split: option.splits prod.splits if_splits)

lemma convertRasterFormat_alpha_rule:
  assumes "c \<in> set (fst (convertRasterFormat e file co))" and "call_canvas c = Some cv"
  shows "alpha_rule (co_format co) cv"
  using assms
  by (auto simp: convertRasterFormat_def Let_def alpha_rule_def
           split: option.splits prod.splits if_splits)

lemma convertSvgToRaster_alpha_rule:
  assumes "c \<in> set (fst (convertSvgToRaster e file co))" and "call_canvas c = Some cv"
  shows "alpha_rule (co_format co) cv"
  using assms
  by (auto simp: convertSvgToRaster_def Let_def alpha_rule_def
           split: option.splits prod.splits if_splits)

text \<open>
  On the PDF path the canvas handed to the encoder holds the rendered page and nothing
  else, whatever the format. For \<^verbatim>\<open>jpg\<close> and \<^verbatim>\<open>jpeg\<close> the white fill is made on the
  second canvas and then overwritten: \<^verbatim>\<open>putImageData\<close> replaces the pixels, it does not
  composite them over the fill.
\<close>

lemma convertPdfToRaster_surface:
  assumes "c \<in> set (fst (convertPdfToRaster e file co))" and "call_canvas c = Some cv"
  shows "\<exists>page. pdfFirstPage e file = Inr page \<and> surface cv = [Page page]"
  using assms
  by (auto simp: convertPdfToRaster_def Let_def
           split: sum.splits option.splits prod.splits if_splits)

lemma convertPdfToRaster_alpha_rule:
  assumes "c \<in> set (fst (convertPdfToRaster e file co))" and "call_canvas c = Some cv"
  shows "alpha_rule (co_format co) cv \<longleftrightarrow> co_format co \<noteq> JPG \<and> co_format co \<noteq> JPEG"
  using convertPdfToRaster_surface [OF assms] by (auto simp: alpha_rule_def)

text \<open>
  Background removal draws the image on its canvas and fills nothing, whatever the
  format.
\<close>

lemma removeBgFromImage_surface:
  assumes "c \<in> set (fst (removeBgFromImage e file bo))" and "call_canvas c = Some cv"
  shows "\<exists>img. surface cv = [Img img]"
  using assms
  by (auto simp: removeBgFromImage_def Let_def split: option.splits sum.splits if_splits)

lemma removeBgFromImage_alpha_rule:
  assumes "c \<in> set (fst (removeBgFromImage e file bo))" and "call_canvas c = Some cv"
  shows "alpha_rule (case bo_format bo of None \<Rightarrow> PNG | Some f \<Rightarrow> f) cv
           \<longleftrightarrow> bo_format bo \<noteq> Some JPG \<and> bo_format bo \<noteq> Some JPEG"
  using removeBgFromImage_surface [OF assms]
  by (auto simp: alpha_rule_def split: option.splits)

text \<open>
  The same requests on one image: to \<^verbatim>\<open>jpg\<close>, resize and raster conversion give the image
  over white; to \<^verbatim>\<open>png\<close>, raster conversion gives the image alone; background removal
  to \<^verbatim>\<open>jpg\<close> gives the image alone, with no white under it.
\<close>

lemma resizeImage_jpg_surface:
  "map (map_option surface \<circ> call_canvas)
     (fst (resizeImage (demo_env img_1000x500) photo_png
        (resize_defaults\<lparr>ro_format := Some JPG\<rparr>)))
     = [Some [White, Img img_1000x500]]"
  by (simp add: resizeImage_def resizeTarget_def demo_env_def resize_defaults_def
      js_or_def Let_def)

lemma convertRasterFormat_jpg_surface:
  "map (map_option surface \<circ> call_canvas)
     (fst (convertRasterFormat (demo_env img_1000x500) photo_png (convert_to JPG)))
     = [Some [White, Img img_1000x500]]"
  by (simp add: convertRasterFormat_def convertTarget_def demo_env_def convert_to_def
      js_or_def Let_def)

lemma convertRasterFormat_png_surface:
  "map (map_option surface \<circ> call_canvas)
     (fst (convertRasterFormat (demo_env img_1000x500) photo_png (convert_to PNG)))
     = [Some [Img img_1000x500]]"
  by (simp add: convertRasterFormat_def convertTarget_def demo_env_def convert_to_def
      js_or_def Let_def)

lemma removeBgFromImage_jpg_surface:
  "map (map_option surface \<circ> call_canvas)
     (fst (removeBgFromImage (demo_env img_1000x500) photo_png
        \<lparr>bo_format = Some JPG, bo_quality = None\<rparr>))
     = [Some [Img img_1000x500]]"
  by (simp add: removeBgFromImage_def demo_env_def Let_def)

text \<open>
  Claim C7: for JPEG output the whole surface is opaque white under the source, for PNG
  and WebP nothing is filled and the transparency of the source is kept, and this on
  the SVG, raster, PDF and resize paths alike. The PDF path misses the JPEG half. It
  does fill a second canvas white, under the comment \<^verbatim>\<open>Fill white background for JPG\<close>,
  but it renders the page first, reads the pixels back, and puts them on the filled
  canvas with \<^verbatim>\<open>putImageData\<close>, which replaces the fill; the first canvas is then
  cleared by the assignment of its size and takes the second one. A PDF converted to
  \<^verbatim>\<open>jpg\<close> reaches the encoder as the rendered page alone, with no white under it, and the
  conversion resolves.
\<close>

theorem pdf_jpg_white_fill_overwritten:
  "map call_canvas (fst (convertImage (demo_env img_1000x500) x_pdf (convert_to JPG)))
     = [Some (Canvas (Num 1224) (Num 1584)
          [RenderPage 1 (Num 1224) (Num 1584),
           ResetSize (Num 1224) (Num 1584),
           DrawCanvas (Canvas (Num 1224) (Num 1584)
             [FillRect ''#FFFFFF'' (Num 0) (Num 0) (Num 1224) (Num 1584),
              PutImageData (Canvas (Num 1224) (Num 1584)
                [RenderPage 1 (Num 1224) (Num 1584)])])])]
   \<and> surface (Canvas (Num 1224) (Num 1584)
          [FillRect ''#FFFFFF'' (Num 0) (Num 0) (Num 1224) (Num 1584)]) = [White]
   \<and> surface (Canvas (Num 1224) (Num 1584)
          [FillRect ''#FFFFFF'' (Num 0) (Num 0) (Num 1224) (Num 1584),
           PutImageData (Canvas (Num 1224) (Num 1584)
             [RenderPage 1 (Num 1224) (Num 1584)])]) = [Page 1]
   \<and> surface (Canvas (Num 1224) (Num 1584)
          [RenderPage 1 (Num 1224) (Num 1584),
           ResetSize (Num 1224) (Num 1584),
           DrawCanvas (Canvas (Num 1224) (Num 1584)
             [FillRect ''#FFFFFF'' (Num 0) (Num 0) (Num 1224) (Num 1584),
              PutImageData (Canvas (Num 1224) (Num 1584)
                [RenderPage 1 (Num 1224) (Num 1584)])])]) = [Page 1]
   \<and> alpha_rule JPG (Canvas (Num 1224) (Num 1584)
          [RenderPage 1 (Num 1224) (Num 1584),
           ResetSize (Num 1224) (Num 1584),
           DrawCanvas (Canvas (Num 1224) (Num 1584)
             [FillRect ''#FFFFFF'' (Num 0) (Num 0) (Num 1224) (Num 1584),
              PutImageData (Canvas (Num 1224) (Num 1584)
                [RenderPage 1 (Num 1224) (Num 1584)])])]) = False
   \<and> resolved (snd (convertImage (demo_env img_1000x500) x_pdf (convert_to JPG)))"
proof -
  have pdf: "map call_canvas (fst (convertImage (demo_env img_1000x500) x_pdf (convert_to JPG)))
     = [Some (Canvas (Num 1224) (Num 1584)
          [RenderPage 1 (Num 1224) (Num 1584),
           ResetSize (Num 1224) (Num 1584),
           DrawCanvas (Canvas (Num 1224) (Num 1584)
             [FillRect ''#FFFFFF'' (Num 0) (Num 0) (Num 1224) (Num 1584),
              PutImageData (Canvas (Num 1224) (Num 1584)
                [RenderPage 1 (Num 1224) (Num 1584)])])])]"
    unfolding convertImage_detect detect_x_pdf
    by (simp add: convertPdfToRaster_def demo_env_def convert_to_def js_or_def Let_def)
  have res: "resolved (snd (convertImage (demo_env img_1000x500) x_pdf (convert_to JPG)))"
    unfolding convertImage_detect detect_x_pdf
    by (simp add: convertPdfToRaster_def demo_env_def convert_to_def js_or_def Let_def)
  show ?thesis unfolding pdf using res by (simp add: alpha_rule_def)
qed

end
